theory Spec2Isabelle
  imports Complex_Main "HOL-Library.Word"
begin

section \<open>Single-precision values\<close>

text \<open>
  The C type \<open>float\<close> of \<open>sensors.c\<close> is embedded as the extended reals with a
  not-a-number element: the finite values carry a real, the two infinities and NaN are
  separate constructors. Arithmetic follows IEEE 754 on the special values (NaN
  propagates, \<open>inf - inf\<close> and \<open>0 * inf\<close> are NaN, a finite non-zero value divided
  by zero is an infinity). Rounding and the sign of zero are not modelled, so results
  about finite values hold up to floating-point rounding; the one exception is the
  underflow of the barometer's pressure quotient, see \<open>underflow32\<close>.
\<close>

datatype cfloat = Fin real | PInf | NInf | NaN

definition isnan :: "cfloat \<Rightarrow> bool" where
  "isnan f = (f = NaN)"

fun fneg :: "cfloat \<Rightarrow> cfloat" where
  "fneg (Fin a) = Fin (- a)"
| "fneg PInf = NInf"
| "fneg NInf = PInf"
| "fneg NaN = NaN"

fun fadd :: "cfloat \<Rightarrow> cfloat \<Rightarrow> cfloat" where
  "fadd NaN _ = NaN"
| "fadd _ NaN = NaN"
| "fadd (Fin a) (Fin b) = Fin (a + b)"
| "fadd PInf NInf = NaN"
| "fadd NInf PInf = NaN"
| "fadd PInf _ = PInf"
| "fadd NInf _ = NInf"
| "fadd (Fin a) PInf = PInf"
| "fadd (Fin a) NInf = NInf"

definition fsub :: "cfloat \<Rightarrow> cfloat \<Rightarrow> cfloat" where
  "fsub a b = fadd a (fneg b)"

text \<open>The sign of a non-NaN value, and the infinity (or NaN for 0) with a given sign.\<close>

fun fsign :: "cfloat \<Rightarrow> real" where
  "fsign (Fin a) = sgn a"
| "fsign PInf = 1"
| "fsign NInf = - 1"
| "fsign NaN = 0"

definition inf_of_sign :: "real \<Rightarrow> cfloat" where
  "inf_of_sign s = (if 0 < s then PInf else if s < 0 then NInf else NaN)"

fun fmul :: "cfloat \<Rightarrow> cfloat \<Rightarrow> cfloat" where
  "fmul NaN _ = NaN"
| "fmul _ NaN = NaN"
| "fmul (Fin a) (Fin b) = Fin (a * b)"
| "fmul a b = inf_of_sign (fsign a * fsign b)"

fun fdiv :: "cfloat \<Rightarrow> cfloat \<Rightarrow> cfloat" where
  "fdiv NaN _ = NaN"
| "fdiv _ NaN = NaN"
| "fdiv (Fin a) (Fin b) = (if b = 0 then inf_of_sign a else Fin (a / b))"
| "fdiv (Fin a) _ = Fin 0"
| "fdiv a (Fin b) = inf_of_sign (fsign a * (if b < 0 then - 1 else 1))"
| "fdiv _ _ = NaN"

text \<open>C's comparisons: false as soon as one operand is NaN.\<close>

fun fle :: "cfloat \<Rightarrow> cfloat \<Rightarrow> bool" where
  "fle NaN _ = False"
| "fle _ NaN = False"
| "fle (Fin a) (Fin b) = (a \<le> b)"
| "fle NInf _ = True"
| "fle _ PInf = True"
| "fle _ _ = False"

definition fge :: "cfloat \<Rightarrow> cfloat \<Rightarrow> bool" where
  "fge a b = fle b a"

definition fgt :: "cfloat \<Rightarrow> cfloat \<Rightarrow> bool" where
  "fgt a b = (fle b a \<and> a \<noteq> b)"

text \<open>
  \<open>powf\<close> of the C library for a finite exponent, with the special values as C99
  Annex F fixes them: a NaN operand gives NaN, a negative finite base with an exponent
  that is not an integer is a domain error and gives NaN, a zero base with a positive
  exponent gives zero, and an infinite base with a positive exponent that is not an odd
  integer gives \<open>+inf\<close>. The only exponent \<open>sensors.c\<close> passes is the constant
  \<open>1 / 5.255\<close>; an infinite exponent is outside the model (it yields NaN here).
\<close>

fun powf :: "cfloat \<Rightarrow> cfloat \<Rightarrow> cfloat" where
  "powf (Fin a) (Fin e) =
     (if 0 < a then Fin (a powr e)
      else if a = 0 then (if 0 < e then Fin 0 else if e = 0 then Fin 1 else PInf)
      else if e \<in> \<int> then Fin ((if even \<lfloor>e\<rfloor> then 1 else - 1) * (\<bar>a\<bar> powr e))
      else NaN)"
| "powf NaN _ = NaN"
| "powf _ NaN = NaN"
| "powf PInf (Fin e) = (if 0 < e then PInf else if e = 0 then Fin 1 else Fin 0)"
| "powf NInf (Fin e) = (if 0 < e then (if e \<in> \<int> \<and> odd \<lfloor>e\<rfloor> then NInf else PInf)
                        else if e = 0 then Fin 1 else Fin 0)"
| "powf _ _ = NaN"

text \<open>
  Of the rounding of binary32 one effect is modelled, where the outcome of a handler
  depends on it: a finite quotient of magnitude at most \<open>2 ^ -150\<close>, half the smallest
  subnormal number, rounds to zero (a tie goes to the even neighbour, which is zero).
  The sign of that zero plays no part in \<open>powf\<close> for a positive exponent that is not
  an odd integer.
\<close>

definition underflow32 :: "cfloat \<Rightarrow> cfloat" where
  "underflow32 f = (case f of Fin a \<Rightarrow> if \<bar>a\<bar> \<le> 1 / 2 ^ 150 then Fin 0 else Fin a | _ \<Rightarrow> f)"

type_synonym vec3 = "cfloat \<times> cfloat \<times> cfloat"
type_synonym mat3 = "vec3 \<times> vec3 \<times> vec3"

section \<open>Module state\<close>

text \<open>
  The file-scope variables of \<open>sensors.c\<close> that the handlers read and write. The
  settings structures \<open>agcal\<close>, \<open>baroCorrection\<close> and \<open>baroCorrectionExtent\<close> are
  flattened, one field per member the handlers use. \<open>published\<close> logs the calls of the
  UAVObject setters in order, the newest last.
\<close>

datatype uavo_set =
    AccelSensorSet cfloat cfloat cfloat cfloat
  | GyroSensorSet cfloat cfloat cfloat cfloat
  | MagSensorSet cfloat cfloat cfloat cfloat
  | AuxMagSensorSet cfloat cfloat cfloat
  | BaroSensorSet cfloat cfloat cfloat

record globals =
  agcal_accel_bias :: vec3
  agcal_accel_scale :: vec3
  agcal_gyro_bias :: vec3
  agcal_gyro_scale :: vec3
  agcal_accel_temp_coeff :: vec3
  agcal_gyro_temp_coeff :: vec3
  agcal_gyro_temp_coeff2 :: vec3
  agcal_temp_calibrated_extent_min :: cfloat
  agcal_temp_calibrated_extent_max :: cfloat
  mag_bias :: vec3
  mag_transform :: mat3
  auxmag_bias :: vec3
  auxmag_transform :: mat3
  gyro_temp_calibrated :: bool
  accel_temp_calibrated :: bool
  accel_temperature :: cfloat
  gyro_temperature :: cfloat
  accel_temp_bias :: vec3
  gyro_temp_bias :: vec3
  accel_temp_calibration_count :: "8 word"
  gyro_temp_calibration_count :: "8 word"
  R :: mat3
  baroCorrection_a :: cfloat
  baroCorrection_b :: cfloat
  baroCorrection_c :: cfloat
  baroCorrection_d :: cfloat
  baroCorrectionExtent_min :: cfloat
  baroCorrectionExtent_max :: cfloat
  baro_temp_correction_enabled :: bool
  baro_temp_bias :: cfloat
  baro_temperature :: cfloat
  baro_temp_calibration_count :: "8 word"
  published :: "uavo_set list"

section \<open>Temperature bias\<close>

definition TEMP_CALIB_INTERVAL :: "8 word" where
  "TEMP_CALIB_INTERVAL = 30"

definition BARO_TEMP_CALIB_INTERVAL :: "8 word" where
  "BARO_TEMP_CALIB_INTERVAL = 10"

text \<open>
  \<open>temp_alpha_baro = TEMP_DT_BARO / (TEMP_DT_BARO + 1 / (2 * pi * TEMP_LPF_FC_BARO))\<close>
  with \<open>TEMP_DT_BARO = 1 / 120\<close> and \<open>TEMP_LPF_FC_BARO = 5\<close>.
\<close>

definition TEMP_DT_BARO :: cfloat where
  "TEMP_DT_BARO = fdiv (Fin 1) (Fin 120)"

definition TEMP_LPF_FC_BARO :: cfloat where
  "TEMP_LPF_FC_BARO = Fin 5"

definition temp_alpha_baro :: cfloat where
  "temp_alpha_baro =
     fdiv TEMP_DT_BARO
       (fadd TEMP_DT_BARO (fdiv (Fin 1) (fmul (fmul (Fin 2) (Fin pi)) TEMP_LPF_FC_BARO)))"

text \<open>
  Modelled from the spec: \<open>boundf\<close> of \<open>mathmisc.h\<close>, which is not among the sources.
  The spec describes it as a symmetric bound function that clips values above the
  upper boundary to it and values below the lower boundary to it; the two boundaries
  may be given in either order.
\<close>

definition boundf :: "cfloat \<Rightarrow> cfloat \<Rightarrow> cfloat \<Rightarrow> cfloat" where
  "boundf val boundary1 boundary2 =
     (if fgt boundary1 boundary2 then
        (if \<not> fge val boundary2 then boundary2
         else if \<not> fle val boundary1 then boundary1 else val)
      else
        (if \<not> fge val boundary1 then boundary1
         else if \<not> fle val boundary2 then boundary2 else val))"

text \<open>
  \<open>temp_alpha_gyro_accel\<close> is \<open>LPF_ALPHA(TEMP_DT_GYRO_ACCEL, TEMP_LPF_FC_GYRO_ACCEL)\<close>;
  the macro \<open>LPF_ALPHA\<close> and the rate \<open>PIOS_SENSOR_RATE\<close> are declared outside the
  sources, so the constant is a parameter \<open>alpha\<close> of the two functions that use it.
\<close>

definition updateAccelTempBias :: "cfloat \<Rightarrow> cfloat \<Rightarrow> globals \<Rightarrow> globals" where
  "updateAccelTempBias alpha temperature g =
     (let g1 = (if isnan (accel_temperature g) then g\<lparr>accel_temperature := temperature\<rparr> else g);
          g2 = g1\<lparr>accel_temperature :=
                 fadd (fmul alpha (fsub temperature (accel_temperature g1))) (accel_temperature g1)\<rparr>;
          g3 = (if accel_temp_calibrated g2 \<and> accel_temp_calibration_count g2 = 0 then
                  (let g2a = g2\<lparr>accel_temp_calibration_count := TEMP_CALIB_INTERVAL\<rparr> in
                   if accel_temp_calibrated g2a then
                     (let ctemp = boundf (accel_temperature g2a)
                                    (agcal_temp_calibrated_extent_max g2a)
                                    (agcal_temp_calibrated_extent_min g2a);
                          (cx, cy, cz) = agcal_accel_temp_coeff g2a
                      in g2a\<lparr>accel_temp_bias := (fmul cx ctemp, fmul cy ctemp, fmul cz ctemp)\<rparr>)
                   else g2a)
                else g2)
      in g3\<lparr>accel_temp_calibration_count := accel_temp_calibration_count g3 - 1\<rparr>)"

definition updateGyroTempBias :: "cfloat \<Rightarrow> cfloat \<Rightarrow> globals \<Rightarrow> globals" where
  "updateGyroTempBias alpha temperature g =
     (let g1 = (if isnan (gyro_temperature g) then g\<lparr>gyro_temperature := temperature\<rparr> else g);
          g2 = g1\<lparr>gyro_temperature :=
                 fadd (fmul alpha (fsub temperature (gyro_temperature g1))) (gyro_temperature g1)\<rparr>;
          g3 = (if gyro_temp_calibrated g2 \<and> gyro_temp_calibration_count g2 = 0 then
                  (let g2a = g2\<lparr>gyro_temp_calibration_count := TEMP_CALIB_INTERVAL\<rparr> in
                   if gyro_temp_calibrated g2a then
                     (let ctemp = boundf (gyro_temperature g2a)
                                    (agcal_temp_calibrated_extent_max g2a)
                                    (agcal_temp_calibrated_extent_min g2a);
                          (cx, cy, cz) = agcal_gyro_temp_coeff g2a;
                          (cx2, cy2, cz2) = agcal_gyro_temp_coeff2 g2a
                      in g2a\<lparr>gyro_temp_bias :=
                              (fmul (fadd cx (fmul cx2 ctemp)) ctemp,
                               fmul (fadd cy (fmul cy2 ctemp)) ctemp,
                               fmul (fadd cz (fmul cz2 ctemp)) ctemp)\<rparr>)
                   else g2a)
                else g2)
      in g3\<lparr>gyro_temp_calibration_count := gyro_temp_calibration_count g3 - 1\<rparr>)"

definition updateBaroTempBias :: "cfloat \<Rightarrow> globals \<Rightarrow> globals" where
  "updateBaroTempBias temperature g =
     (let g1 = (if isnan (baro_temperature g) then g\<lparr>baro_temperature := temperature\<rparr> else g);
          g2 = g1\<lparr>baro_temperature :=
                 fadd (fmul temp_alpha_baro (fsub temperature (baro_temperature g1)))
                      (baro_temperature g1)\<rparr>;
          g3 = (if baro_temp_correction_enabled g2 \<and> baro_temp_calibration_count g2 = 0 then
                  (let g2a = g2\<lparr>baro_temp_calibration_count := BARO_TEMP_CALIB_INTERVAL\<rparr>;
                       ctemp = boundf (baro_temperature g2a)
                                 (baroCorrectionExtent_max g2a) (baroCorrectionExtent_min g2a)
                   in g2a\<lparr>baro_temp_bias :=
                           fadd (baroCorrection_a g2a)
                             (fmul (fadd (fmul (fadd (fmul (baroCorrection_d g2a) ctemp)
                                                     (baroCorrection_c g2a)) ctemp)
                                         (baroCorrection_b g2a)) ctemp)\<rparr>)
                else g2)
      in g3\<lparr>baro_temp_calibration_count := baro_temp_calibration_count g3 - 1\<rparr>)"

section \<open>Sensor instances and raw samples\<close>

text \<open>
  Modelled from the spec: the type tags of \<open>pios_sensors.h\<close>, which is not among the
  sources. The spec lists the tags as accel, gyro, combined gyro+accel, mag, aux-mag
  and baro. \<open>sensors.c\<close> tests a tag with \<open>&\<close> against the accel bit, the gyro bit and
  the 3-axis mask; the combined tag carries both the accel and the gyro bit.
\<close>

datatype PIOS_SENSORS_TYPE =
    PIOS_SENSORS_TYPE_3AXIS_ACCEL
  | PIOS_SENSORS_TYPE_3AXIS_GYRO
  | PIOS_SENSORS_TYPE_3AXIS_GYRO_ACCEL
  | PIOS_SENSORS_TYPE_3AXIS_MAG
  | PIOS_SENSORS_TYPE_3AXIS_AUXMAG
  | PIOS_SENSORS_TYPE_1AXIS_BARO

fun has_accel_bit :: "PIOS_SENSORS_TYPE \<Rightarrow> bool" where
  "has_accel_bit PIOS_SENSORS_TYPE_3AXIS_ACCEL = True"
| "has_accel_bit PIOS_SENSORS_TYPE_3AXIS_GYRO_ACCEL = True"
| "has_accel_bit _ = False"

fun has_gyro_bit :: "PIOS_SENSORS_TYPE \<Rightarrow> bool" where
  "has_gyro_bit PIOS_SENSORS_TYPE_3AXIS_GYRO = True"
| "has_gyro_bit PIOS_SENSORS_TYPE_3AXIS_GYRO_ACCEL = True"
| "has_gyro_bit _ = False"

fun has_3d_bit :: "PIOS_SENSORS_TYPE \<Rightarrow> bool" where
  "has_3d_bit PIOS_SENSORS_TYPE_1AXIS_BARO = False"
| "has_3d_bit _ = True"

text \<open>
  Modelled from the spec: the instance structure of \<open>pios_sensors.h\<close>, which is not
  among the sources. A sensor instance as the task sees it: an identifier standing for
  the address of the list node, the type tag, the driver's \<open>is_polled\<close> flag and the
  two scale factors that \<open>PIOS_SENSORS_GetScales\<close> writes (one per physical sensor of
  the instance).
\<close>

record PIOS_SENSORS_Instance =
  sensor_id :: nat
  sensor_type :: PIOS_SENSORS_TYPE
  is_polled :: bool
  sensor_scales :: "cfloat \<times> cfloat"

type_synonym Vector3i16 = "16 word \<times> 16 word \<times> 16 word"
type_synonym Vector3i32 = "32 word \<times> 32 word \<times> 32 word"

text \<open>
  Modelled from the spec: the two sample structures of \<open>pios_sensors.h\<close>, which is not
  among the sources: a count, a raw temperature code in hundredths of a degree and up
  to two 3-axis integer vectors, or one value with its temperature. They are the two
  views of the \<open>sensor_data\<close> union. The buffer is allocated for
  \<open>MAX_SENSORS_PER_INSTANCE = 2\<close> vectors, so the 3-axis view holds two slots whatever
  its \<open>count\<close> says. How the bytes of one view read through the other is not modelled:
  both views are fields of one record.
\<close>

record PIOS_SENSORS_3Axis_SensorsWithTemp =
  s3_count :: "16 word"
  s3_temperature :: "16 word"
  s3_sample :: "Vector3i16 \<times> Vector3i16"

record PIOS_SENSORS_1Axis_SensorsWithTemp =
  s1_temperature :: cfloat
  s1_sample :: cfloat

record sensor_data =
  sensorSample3Axis :: PIOS_SENSORS_3Axis_SensorsWithTemp
  sensorSample1Axis :: PIOS_SENSORS_1Axis_SensorsWithTemp

record sensor_fetch_context =
  ctx_accum :: "Vector3i32 \<times> Vector3i32"
  ctx_temperature :: "32 word"
  ctx_count :: "32 word"

definition MAX_SENSORS_PER_INSTANCE :: nat where
  "MAX_SENSORS_PER_INSTANCE = 2"

fun slot :: "nat \<Rightarrow> 'a \<times> 'a \<Rightarrow> 'a" where
  "slot i (a, b) = (if i = 0 then a else b)"

fun slot_update :: "nat \<Rightarrow> 'a \<Rightarrow> 'a \<times> 'a \<Rightarrow> 'a \<times> 'a" where
  "slot_update i v (a, b) = (if i = 0 then (v, b) else (a, v))"

section \<open>Sample accumulation\<close>

definition clearContext :: "sensor_fetch_context \<Rightarrow> sensor_fetch_context" where
  "clearContext sensor_context =
     sensor_context\<lparr>ctx_accum := ((0, 0, 0), (0, 0, 0)), ctx_temperature := 0, ctx_count := 0\<rparr>"

text \<open>
  One pass of the loop body of \<open>accumulateSamples\<close>: the 16-bit sample is sign-extended
  and added to the 32-bit sum, which wraps around.
\<close>

definition accumulate_slot ::
  "PIOS_SENSORS_3Axis_SensorsWithTemp \<Rightarrow> sensor_fetch_context \<Rightarrow> nat \<Rightarrow> sensor_fetch_context" where
  "accumulate_slot s3 sensor_context i =
     (let (ax, ay, az) = slot i (ctx_accum sensor_context);
          (sx, sy, sz) = slot i (s3_sample s3)
      in sensor_context\<lparr>ctx_accum :=
           slot_update i (ax + scast sx, ay + scast sy, az + scast sz) (ctx_accum sensor_context)\<rparr>)"

definition accumulateSamples :: "sensor_fetch_context \<Rightarrow> sensor_data \<Rightarrow> sensor_fetch_context" where
  "accumulateSamples sensor_context sample =
     (let s3 = sensorSample3Axis sample;
          c1 = foldl (accumulate_slot s3) sensor_context
                 (takeWhile (\<lambda>i. i < unat (s3_count s3)) [0..<MAX_SENSORS_PER_INSTANCE]);
          c2 = c1\<lparr>ctx_temperature := ctx_temperature c1 + scast (s3_temperature s3)\<rparr>
      in c2\<lparr>ctx_count := ctx_count c2 + 1\<rparr>)"

section \<open>Channel handlers\<close>

text \<open>
  Modelled from the spec: \<open>rot_mult\<close> of \<open>CoordinateConversions.h\<close>, which is not among
  the sources; the spec describes it as a standard matrix-vector product.
\<close>

definition dot3 :: "vec3 \<Rightarrow> vec3 \<Rightarrow> cfloat" where
  "dot3 r v = (case r of (r0, r1, r2) \<Rightarrow> case v of (v0, v1, v2) \<Rightarrow>
                 fadd (fadd (fmul r0 v0) (fmul r1 v1)) (fmul r2 v2))"

definition rot_mult :: "mat3 \<Rightarrow> vec3 \<Rightarrow> vec3" where
  "rot_mult M v = (case M of (row0, row1, row2) \<Rightarrow> (dot3 row0 v, dot3 row1 v, dot3 row2 v))"

definition handleAccel :: "cfloat \<Rightarrow> vec3 \<Rightarrow> cfloat \<Rightarrow> globals \<Rightarrow> globals" where
  "handleAccel alpha samples temperature g =
     (let g1 = updateAccelTempBias alpha temperature g;
          (s0, s1, s2) = samples;
          (bx, by, bz) = agcal_accel_bias g1;
          (kx, ky, kz) = agcal_accel_scale g1;
          (t0, t1, t2) = accel_temp_bias g1;
          accels_out = (fsub (fmul (fsub s0 bx) kx) t0,
                        fsub (fmul (fsub s1 by) ky) t1,
                        fsub (fmul (fsub s2 bz) kz) t2);
          (x, y, z) = rot_mult (R g1) accels_out
      in g1\<lparr>published := published g1 @ [AccelSensorSet x y z temperature]\<rparr>)"

definition handleGyro :: "cfloat \<Rightarrow> vec3 \<Rightarrow> cfloat \<Rightarrow> globals \<Rightarrow> globals" where
  "handleGyro alpha samples temperature g =
     (let g1 = updateGyroTempBias alpha temperature g;
          (s0, s1, s2) = samples;
          (bx, by, bz) = agcal_gyro_bias g1;
          (kx, ky, kz) = agcal_gyro_scale g1;
          (t0, t1, t2) = gyro_temp_bias g1;
          gyros_out = (fsub (fsub (fmul s0 kx) bx) t0,
                       fsub (fsub (fmul s1 ky) by) t1,
                       fsub (fsub (fmul s2 kz) bz) t2);
          (x, y, z) = rot_mult (R g1) gyros_out
      in g1\<lparr>published := published g1 @ [GyroSensorSet x y z temperature]\<rparr>)"

definition handleMag :: "vec3 \<Rightarrow> cfloat \<Rightarrow> globals \<Rightarrow> globals" where
  "handleMag samples temperature g =
     (let (s0, s1, s2) = samples;
          (b0, b1, b2) = mag_bias g;
          mags = (fsub s0 b0, fsub s1 b1, fsub s2 b2);
          (x, y, z) = rot_mult (mag_transform g) mags
      in g\<lparr>published := published g @ [MagSensorSet x y z temperature]\<rparr>)"

definition handleAuxMag :: "vec3 \<Rightarrow> globals \<Rightarrow> globals" where
  "handleAuxMag samples g =
     (let (s0, s1, s2) = samples;
          (b0, b1, b2) = auxmag_bias g;
          mags = (fsub s0 b0, fsub s1 b1, fsub s2 b2);
          (x, y, z) = rot_mult (auxmag_transform g) mags
      in g\<lparr>published := published g @ [AuxMagSensorSet x y z]\<rparr>)"

text \<open>
  Modelled from the spec: \<open>PIOS_CONST_MKS_STD_ATMOSPHERE_F\<close> of \<open>pios_constants.h\<close>,
  which is not among the sources; the spec names it the standard atmosphere, here in
  pascal.
\<close>

definition PIOS_CONST_MKS_STD_ATMOSPHERE_F :: cfloat where
  "PIOS_CONST_MKS_STD_ATMOSPHERE_F = Fin 101325"

definition baro_altitude :: "cfloat \<Rightarrow> cfloat" where
  "baro_altitude sample =
     fmul (Fin 44330)
       (fsub (Fin 1) (powf (underflow32 (fdiv sample PIOS_CONST_MKS_STD_ATMOSPHERE_F))
                           (fdiv (Fin 1) (Fin (5255 / 1000)))))"

definition handleBaro :: "cfloat \<Rightarrow> cfloat \<Rightarrow> globals \<Rightarrow> globals" where
  "handleBaro sample temperature g =
     (let g1 = updateBaroTempBias temperature g;
          sample1 = fsub sample (baro_temp_bias g1);
          altitude = baro_altitude sample1
      in if \<not> isnan altitude
         then g1\<lparr>published := published g1 @ [BaroSensorSet altitude temperature sample1]\<rparr>
         else g1)"

section \<open>Averaging and dispatch\<close>

definition float_of_i32 :: "32 word \<Rightarrow> cfloat" where
  "float_of_i32 w = Fin (real_of_int (sint w))"

definition float_of_u32 :: "32 word \<Rightarrow> cfloat" where
  "float_of_u32 w = Fin (real (unat w))"

text \<open>
  \<open>processSamples3d\<close>. The performance counters (\<open>PERF_...\<close>) only instrument the
  code and are left out. The first block serves the accel, mag and aux-mag tags and
  returns for the two magnetometers; the second block serves the gyro bit, reading the
  second slot when the instance is the combined gyro+accel one.
\<close>

definition mean3 :: "sensor_fetch_context \<Rightarrow> cfloat \<Rightarrow> nat \<Rightarrow> vec3" where
  "mean3 sensor_context scale i =
     (let inv_count = fdiv (Fin 1) (float_of_u32 (ctx_count sensor_context));
          t = fmul inv_count scale;
          (ax, ay, az) = slot i (ctx_accum sensor_context)
      in (fmul (float_of_i32 ax) t, fmul (float_of_i32 ay) t, fmul (float_of_i32 az) t))"

definition mean_temperature :: "sensor_fetch_context \<Rightarrow> cfloat" where
  "mean_temperature sensor_context =
     (let inv_count = fdiv (Fin 1) (float_of_u32 (ctx_count sensor_context))
      in fmul (fmul (float_of_i32 (ctx_temperature sensor_context)) inv_count) (Fin (1 / 100)))"

definition processSamples3d ::
  "cfloat \<Rightarrow> sensor_fetch_context \<Rightarrow> PIOS_SENSORS_Instance \<Rightarrow> globals \<Rightarrow> globals" where
  "processSamples3d alpha sensor_context sensor g =
     (let scales = sensor_scales sensor;
          ty = sensor_type sensor;
          gyro_part = (\<lambda>g'.
            if has_gyro_bit ty then
              (let index = (if ty = PIOS_SENSORS_TYPE_3AXIS_GYRO_ACCEL then 1 else 0)
               in handleGyro alpha (mean3 sensor_context (slot index scales) index)
                    (mean_temperature sensor_context) g')
            else g')
      in if has_accel_bit ty \<or> ty = PIOS_SENSORS_TYPE_3AXIS_MAG \<or> ty = PIOS_SENSORS_TYPE_3AXIS_AUXMAG
         then
           (let samples = mean3 sensor_context (slot 0 scales) 0;
                temperature = mean_temperature sensor_context
            in if ty = PIOS_SENSORS_TYPE_3AXIS_MAG then handleMag samples temperature g
               else if ty = PIOS_SENSORS_TYPE_3AXIS_AUXMAG then handleAuxMag samples g
               else gyro_part (handleAccel alpha samples temperature g))
         else gyro_part g)"

text \<open>
  \<open>processSamples1d\<close>: the barometer is handled, any other tag runs into
  \<open>PIOS_Assert(0)\<close>, modelled as \<open>None\<close>.
\<close>

definition processSamples1d ::
  "PIOS_SENSORS_1Axis_SensorsWithTemp \<Rightarrow> PIOS_SENSORS_Instance \<Rightarrow> globals \<Rightarrow> globals option" where
  "processSamples1d sample sensor g =
     (if sensor_type sensor = PIOS_SENSORS_TYPE_1AXIS_BARO
      then Some (handleBaro (s1_sample sample) (s1_temperature sample) g)
      else None)"

section \<open>The sensor task\<close>

text \<open>
  The build-time constants that \<open>sensors.c\<close> takes from headers outside the sources:
  the sensor rate \<open>PIOS_SENSOR_RATE\<close> in Hz, taken as a whole number, and the filter
  constant \<open>temp_alpha_gyro_accel\<close> computed from it by \<open>LPF_ALPHA\<close>.
\<close>

record build_config =
  PIOS_SENSOR_RATE :: nat
  temp_alpha_gyro_accel :: cfloat

definition AUX_MAG_SKIP :: "build_config \<Rightarrow> int" where
  "AUX_MAG_SKIP cfg =
     (int (if PIOS_SENSOR_RATE cfg < 76 then 76 else PIOS_SENSOR_RATE cfg) + 74) div 75"

text \<open>
  Modelled from the spec: the alarm severities of the system-alarms object, which is
  not among the sources; the spec names a warning and a critical level.
\<close>

datatype alarm_severity = SYSTEMALARMS_ALARM_WARNING | SYSTEMALARMS_ALARM_CRITICAL

text \<open>
  What the task does to its surroundings, in order: alarm calls, watchdog reloads,
  reads of the tick counter, delays, queue receives (with whether the call waits up to
  \<open>sensor_period_ticks\<close> and whether it delivered a sample), polls and fetches, driver
  resets, the reset counter handed to the performance tracker, self-tests, and the
  calls of the two processing functions (with the context's sample count). Sensors are
  named by \<open>sensor_id\<close>.
\<close>

datatype event =
    AlarmsClear
  | AlarmsSet alarm_severity
  | RELOAD_WDG
  | GetTickCount
  | DelayUntilPeriod
  | TaskDelay nat
  | SensorsTest nat bool
  | QueueReceive nat bool bool
  | SensorsPoll nat bool
  | SensorFetch nat
  | SensorReset nat
  | TrackResets "32 word"
  | ProcessSamples3d nat "32 word"
  | ProcessSamples1d nat

datatype task_phase = Running | CriticalFault | AssertFailed

record task_state =
  phase :: task_phase
  error :: bool
  reset_counter :: "32 word"
  aux_mag_skip :: "8 word"
  sensor_context :: sensor_fetch_context
  globs :: globals
  trace :: "event list"

text \<open>
  What the drivers deliver to one sensor instance during one cycle: the samples its
  queue hands over, in order, before a receive comes back empty, and the outcome of a
  poll (\<open>None\<close> when \<open>PIOS_SENSORS_Poll\<close> is false, otherwise the data fetched).
\<close>

record sensor_feed =
  queued :: "sensor_data list"
  polled :: "sensor_data option"

type_synonym cycle_feed = "nat \<Rightarrow> sensor_feed"

definition emit :: "event list \<Rightarrow> task_state \<Rightarrow> task_state" where
  "emit es st = st\<lparr>trace := trace st @ es\<rparr>"

text \<open>
  The receive loop of a queue-fed instance. The call waits for up to one period only
  for the primary instance while nothing has been accumulated.
\<close>

fun drain_queue :: "nat \<Rightarrow> bool \<Rightarrow> sensor_data list \<Rightarrow> task_state \<Rightarrow> task_state" where
  "drain_queue sid is_primary [] st =
     emit [QueueReceive sid (is_primary \<and> ctx_count (sensor_context st) = 0) False] st"
| "drain_queue sid is_primary (d # ds) st =
     drain_queue sid is_primary ds
       ((emit [QueueReceive sid (is_primary \<and> ctx_count (sensor_context st) = 0) True] st)
          \<lparr>sensor_context := accumulateSamples (sensor_context st) d\<rparr>)"

definition call_processSamples3d :: "build_config \<Rightarrow> PIOS_SENSORS_Instance \<Rightarrow> task_state \<Rightarrow> task_state" where
  "call_processSamples3d cfg sensor st =
     (emit [ProcessSamples3d (sensor_id sensor) (ctx_count (sensor_context st))] st)
       \<lparr>globs := processSamples3d (temp_alpha_gyro_accel cfg) (sensor_context st) sensor (globs st)\<rparr>"

definition call_clearContext :: "task_state \<Rightarrow> task_state" where
  "call_clearContext st = st\<lparr>sensor_context := clearContext (sensor_context st)\<rparr>"

text \<open>The body of the loop over the sensor list, for one instance.\<close>

definition sensor_step ::
  "build_config \<Rightarrow> cycle_feed \<Rightarrow> task_state \<Rightarrow> PIOS_SENSORS_Instance \<Rightarrow> task_state" where
  "sensor_step cfg feed st sensor =
     (if phase st \<noteq> Running then st
      else
       let sid = sensor_id sensor;
           is_primary = has_accel_bit (sensor_type sensor)
       in if sensor_type sensor \<noteq> PIOS_SENSORS_TYPE_3AXIS_AUXMAG \<or> aux_mag_skip st = 0 then
            (if \<not> is_polled sensor then
               (let st1 = drain_queue sid is_primary (queued (feed sid)) st
                in if ctx_count (sensor_context st1) \<noteq> 0 then
                     call_clearContext (call_processSamples3d cfg sensor st1)
                   else if is_primary then
                     (emit [SensorReset sid, TrackResets (reset_counter st1 + 1)] st1)
                       \<lparr>reset_counter := reset_counter st1 + 1, error := True\<rparr>
                   else st1)
             else
               (case polled (feed sid) of
                  None \<Rightarrow> emit [SensorsPoll sid False] st
                | Some d \<Rightarrow>
                   (let st1 = emit [SensorsPoll sid True, SensorFetch sid] st
                    in if has_3d_bit (sensor_type sensor) then
                         (let st2 = st1\<lparr>sensor_context := accumulateSamples (sensor_context st1) d\<rparr>
                          in call_clearContext (call_processSamples3d cfg sensor st2))
                       else
                         (case processSamples1d (sensorSample1Axis d) sensor (globs st1) of
                            None \<Rightarrow> (emit [ProcessSamples1d sid] st1)\<lparr>phase := AssertFailed\<rparr>
                          | Some g \<Rightarrow>
                              call_clearContext ((emit [ProcessSamples1d sid] st1)\<lparr>globs := g\<rparr>)))))
          else st)"

text \<open>One pass of the main loop of \<open>SensorsTask\<close>.\<close>

definition cycle_begin :: "task_state \<Rightarrow> task_state" where
  "cycle_begin st =
     (if error st then
        (emit [RELOAD_WDG, GetTickCount, DelayUntilPeriod, AlarmsSet SYSTEMALARMS_ALARM_CRITICAL] st)
          \<lparr>error := False\<rparr>
      else emit [AlarmsClear] st)"

definition next_aux_mag_skip :: "build_config \<Rightarrow> 8 word \<Rightarrow> 8 word" where
  "next_aux_mag_skip cfg k = word_of_int ((uint k + 1) mod AUX_MAG_SKIP cfg)"

definition cycle :: "build_config \<Rightarrow> PIOS_SENSORS_Instance list \<Rightarrow> cycle_feed \<Rightarrow> task_state \<Rightarrow> task_state" where
  "cycle cfg sensors_list feed st =
     (let st1 = cycle_begin st;
          st2 = (call_clearContext st1)\<lparr>aux_mag_skip := next_aux_mag_skip cfg (aux_mag_skip st1)\<rparr>;
          st3 = foldl (sensor_step cfg feed) st2 sensors_list
      in if phase st3 = Running then emit [RELOAD_WDG, DelayUntilPeriod] st3 else st3)"

text \<open>
  The start of the task: the alarm is cleared, every instance is tested (the watchdog
  is reloaded before each test), the 8-bit count of instances is asserted to be
  non-zero, and a failed test raises the critical alarm and parks the task in its
  delay loop. \<open>PIOS_Assert\<close> is declared outside the sources; a failed assertion is
  modelled as the end of the task. \<open>test\<close> stands for \<open>PIOS_SENSORS_Test\<close>. The
  settings callback that the task runs first only loads the settings into the module
  state, which is the argument \<open>g\<close>; the fetch context, a local variable that the
  main loop clears before its first use, starts cleared.
\<close>

definition test_step ::
  "(nat \<Rightarrow> bool) \<Rightarrow> bool \<times> 8 word \<times> event list \<Rightarrow> PIOS_SENSORS_Instance \<Rightarrow> bool \<times> 8 word \<times> event list" where
  "test_step test acc sensor =
     (case acc of (sensors_test, count, tr) \<Rightarrow>
        (sensors_test \<and> test (sensor_id sensor), count + 1,
         tr @ [RELOAD_WDG, SensorsTest (sensor_id sensor) (test (sensor_id sensor))]))"

definition SensorsTask_start ::
  "(nat \<Rightarrow> bool) \<Rightarrow> PIOS_SENSORS_Instance list \<Rightarrow> globals \<Rightarrow> task_state" where
  "SensorsTask_start test sensors_list g =
     (let st0 = \<lparr>phase = Running, error = False, reset_counter = 0, aux_mag_skip = 0,
                 sensor_context = \<lparr>ctx_accum = ((0, 0, 0), (0, 0, 0)), ctx_temperature = 0, ctx_count = 0\<rparr>,
                 globs = g, trace = []\<rparr>
      in case foldl (test_step test) (True, 0, [AlarmsClear]) sensors_list of
           (sensors_test, count, tr) \<Rightarrow>
             if count = 0 then st0\<lparr>phase := AssertFailed, trace := tr\<rparr>
             else if \<not> sensors_test then
               st0\<lparr>phase := CriticalFault,
                   trace := tr @ [RELOAD_WDG, AlarmsSet SYSTEMALARMS_ALARM_CRITICAL]\<rparr>
             else st0\<lparr>trace := tr @ [RELOAD_WDG, GetTickCount]\<rparr>)"

text \<open>
  One step of the task after its start: a pass of the main loop while running, one
  more \<open>vTaskDelay(10)\<close> in the fault loop, nothing after a failed assertion.
\<close>

definition task_step ::
  "build_config \<Rightarrow> PIOS_SENSORS_Instance list \<Rightarrow> cycle_feed \<Rightarrow> task_state \<Rightarrow> task_state" where
  "task_step cfg sensors_list feed st =
     (case phase st of
        Running \<Rightarrow> cycle cfg sensors_list feed st
      | CriticalFault \<Rightarrow> emit [TaskDelay 10] st
      | AssertFailed \<Rightarrow> st)"

fun task_run ::
  "build_config \<Rightarrow> PIOS_SENSORS_Instance list \<Rightarrow> (nat \<Rightarrow> cycle_feed) \<Rightarrow> nat \<Rightarrow> task_state \<Rightarrow> task_state" where
  "task_run cfg sensors_list feeds 0 st = st"
| "task_run cfg sensors_list feeds (Suc n) st =
     task_step cfg sensors_list (feeds n) (task_run cfg sensors_list feeds n st)"

section \<open>Reference states and specification-side notions\<close>

text \<open>
  The module state as the C start-up code leaves it: the statically initialised
  variables at their initialisers, everything else zero.
\<close>

definition boot_globals :: globals where
  "boot_globals = \<lparr>
     agcal_accel_bias = (Fin 0, Fin 0, Fin 0),
     agcal_accel_scale = (Fin 0, Fin 0, Fin 0),
     agcal_gyro_bias = (Fin 0, Fin 0, Fin 0),
     agcal_gyro_scale = (Fin 0, Fin 0, Fin 0),
     agcal_accel_temp_coeff = (Fin 0, Fin 0, Fin 0),
     agcal_gyro_temp_coeff = (Fin 0, Fin 0, Fin 0),
     agcal_gyro_temp_coeff2 = (Fin 0, Fin 0, Fin 0),
     agcal_temp_calibrated_extent_min = Fin 0,
     agcal_temp_calibrated_extent_max = Fin 0,
     mag_bias = (Fin 0, Fin 0, Fin 0),
     mag_transform = ((Fin 1, Fin 0, Fin 0), (Fin 0, Fin 1, Fin 0), (Fin 0, Fin 0, Fin 1)),
     auxmag_bias = (Fin 0, Fin 0, Fin 0),
     auxmag_transform = ((Fin 1, Fin 0, Fin 0), (Fin 0, Fin 1, Fin 0), (Fin 0, Fin 0, Fin 1)),
     gyro_temp_calibrated = False,
     accel_temp_calibrated = False,
     accel_temperature = NaN,
     gyro_temperature = NaN,
     accel_temp_bias = (Fin 0, Fin 0, Fin 0),
     gyro_temp_bias = (Fin 0, Fin 0, Fin 0),
     accel_temp_calibration_count = 0,
     gyro_temp_calibration_count = 0,
     R = ((Fin 0, Fin 0, Fin 0), (Fin 0, Fin 0, Fin 0), (Fin 0, Fin 0, Fin 0)),
     baroCorrection_a = Fin 0,
     baroCorrection_b = Fin 0,
     baroCorrection_c = Fin 0,
     baroCorrection_d = Fin 0,
     baroCorrectionExtent_min = Fin 0,
     baroCorrectionExtent_max = Fin 0,
     baro_temp_correction_enabled = False,
     baro_temp_bias = Fin 0,
     baro_temperature = NaN,
     baro_temp_calibration_count = 0,
     published = [] \<rparr>"

text \<open>
  A state after settings have been loaded: temperature calibration enabled on the
  three channels over the extent 0 to 50 degrees, unit board rotation, accel and gyro
  scale 2 and bias 1.
\<close>

definition calibrated_globals :: globals where
  "calibrated_globals = boot_globals\<lparr>
     agcal_accel_bias := (Fin 1, Fin 1, Fin 1),
     agcal_accel_scale := (Fin 2, Fin 2, Fin 2),
     agcal_gyro_bias := (Fin 1, Fin 1, Fin 1),
     agcal_gyro_scale := (Fin 2, Fin 2, Fin 2),
     agcal_accel_temp_coeff := (Fin 1, Fin 2, Fin 3),
     agcal_gyro_temp_coeff := (Fin 1, Fin 2, Fin 3),
     agcal_gyro_temp_coeff2 := (Fin 1, Fin 1, Fin 1),
     agcal_temp_calibrated_extent_min := Fin 0,
     agcal_temp_calibrated_extent_max := Fin 50,
     gyro_temp_calibrated := True,
     accel_temp_calibrated := True,
     R := ((Fin 1, Fin 0, Fin 0), (Fin 0, Fin 1, Fin 0), (Fin 0, Fin 0, Fin 1)),
     baroCorrection_a := Fin 1,
     baroCorrection_b := Fin 1,
     baroCorrection_c := Fin 1,
     baroCorrection_d := Fin 1,
     baroCorrectionExtent_min := Fin 0,
     baroCorrectionExtent_max := Fin 50,
     baro_temp_correction_enabled := True\<rparr>"

text \<open>The clamping of a temperature into the calibrated extent, in the spec's words.\<close>

definition clamp_extent :: "real \<Rightarrow> real \<Rightarrow> real \<Rightarrow> real" where
  "clamp_extent lo hi t = (if t < lo then lo else if hi < t then hi else t)"

text \<open>A run of consecutive calls of one channel's bias update, one per accepted sample.\<close>

fun accel_run :: "cfloat \<Rightarrow> cfloat list \<Rightarrow> globals \<Rightarrow> globals" where
  "accel_run alpha [] g = g"
| "accel_run alpha (t # ts) g = accel_run alpha ts (updateAccelTempBias alpha t g)"

fun gyro_run :: "cfloat \<Rightarrow> cfloat list \<Rightarrow> globals \<Rightarrow> globals" where
  "gyro_run alpha [] g = g"
| "gyro_run alpha (t # ts) g = gyro_run alpha ts (updateGyroTempBias alpha t g)"

fun baro_run :: "cfloat list \<Rightarrow> globals \<Rightarrow> globals" where
  "baro_run [] g = g"
| "baro_run (t # ts) g = baro_run ts (updateBaroTempBias t g)"

text \<open>Finite vectors.\<close>

type_synonym rvec3 = "real \<times> real \<times> real"

definition fin3 :: "rvec3 \<Rightarrow> vec3" where
  "fin3 v = (case v of (a, b, c) \<Rightarrow> (Fin a, Fin b, Fin c))"

text \<open>
  The two orders of correction the handlers apply to a sample \<open>s\<close> with scale \<open>k\<close>,
  constant bias \<open>b\<close> and temperature bias \<open>tb\<close>, axis by axis.
\<close>

definition scale_then_bias :: "rvec3 \<Rightarrow> rvec3 \<Rightarrow> rvec3 \<Rightarrow> rvec3 \<Rightarrow> rvec3" where
  "scale_then_bias s k b tb =
     (case s of (s0, s1, s2) \<Rightarrow> case k of (k0, k1, k2) \<Rightarrow>
      case b of (b0, b1, b2) \<Rightarrow> case tb of (t0, t1, t2) \<Rightarrow>
        (s0 * k0 - b0 - t0, s1 * k1 - b1 - t1, s2 * k2 - b2 - t2))"

definition bias_then_scale :: "rvec3 \<Rightarrow> rvec3 \<Rightarrow> rvec3 \<Rightarrow> rvec3 \<Rightarrow> rvec3" where
  "bias_then_scale s k b tb =
     (case s of (s0, s1, s2) \<Rightarrow> case k of (k0, k1, k2) \<Rightarrow>
      case b of (b0, b1, b2) \<Rightarrow> case tb of (t0, t1, t2) \<Rightarrow>
        ((s0 - b0) * k0 - t0, (s1 - b1) * k1 - t1, (s2 - b2) * k2 - t2))"

text \<open>
  The sum of the raw vectors that a run of samples holds in slot \<open>i\<close>, and the sum of
  their raw temperatures, in the 32-bit arithmetic of the context. A sample takes part
  in slot \<open>i\<close> when its own count exceeds \<open>i\<close>.
\<close>

definition widen :: "Vector3i16 \<Rightarrow> Vector3i32" where
  "widen v = (case v of (vx, vy, vz) \<Rightarrow> (scast vx, scast vy, scast vz))"

definition vplus :: "Vector3i32 \<Rightarrow> Vector3i32 \<Rightarrow> Vector3i32" where
  "vplus a b = (case a of (ax, ay, az) \<Rightarrow> case b of (bx, by, bz) \<Rightarrow> (ax + bx, ay + by, az + bz))"

fun raw_sum :: "nat \<Rightarrow> sensor_data list \<Rightarrow> Vector3i32" where
  "raw_sum i [] = (0, 0, 0)"
| "raw_sum i (d # ds) =
     (if i < unat (s3_count (sensorSample3Axis d))
      then vplus (widen (slot i (s3_sample (sensorSample3Axis d)))) (raw_sum i ds)
      else raw_sum i ds)"

fun raw_temperature_sum :: "sensor_data list \<Rightarrow> 32 word" where
  "raw_temperature_sum [] = 0"
| "raw_temperature_sum (d # ds) =
     scast (s3_temperature (sensorSample3Axis d)) + raw_temperature_sum ds"

section \<open>Reading the trace\<close>

text \<open>The driver resets requested, by sensor, in order.\<close>

fun reset_ids :: "event list \<Rightarrow> nat list" where
  "reset_ids [] = []"
| "reset_ids (SensorReset sid # es) = sid # reset_ids es"
| "reset_ids (_ # es) = reset_ids es"

text \<open>The alarm calls, in order.\<close>

fun alarm_calls :: "event list \<Rightarrow> event list" where
  "alarm_calls [] = []"
| "alarm_calls (AlarmsClear # es) = AlarmsClear # alarm_calls es"
| "alarm_calls (AlarmsSet sev # es) = AlarmsSet sev # alarm_calls es"
| "alarm_calls (_ # es) = alarm_calls es"

text \<open>The number of waits for a full period.\<close>

fun period_delays :: "event list \<Rightarrow> nat" where
  "period_delays [] = 0"
| "period_delays (DelayUntilPeriod # es) = Suc (period_delays es)"
| "period_delays (_ # es) = period_delays es"

text \<open>The sample counts with which \<open>processSamples3d\<close> was called, in order.\<close>

fun process3d_counts :: "event list \<Rightarrow> 32 word list" where
  "process3d_counts [] = []"
| "process3d_counts (ProcessSamples3d sid n # es) = n # process3d_counts es"
| "process3d_counts (_ # es) = process3d_counts es"

text \<open>
  How often a sensor was served: each pass through the loop body for an instance
  ends its receive loop with one empty receive, or polls the instance once.
\<close>

fun visits :: "nat \<Rightarrow> event list \<Rightarrow> nat" where
  "visits sid [] = 0"
| "visits sid (QueueReceive sid' w False # es) = (if sid' = sid then 1 else 0) + visits sid es"
| "visits sid (SensorsPoll sid' r # es) = (if sid' = sid then 1 else 0) + visits sid es"
| "visits sid (_ # es) = visits sid es"

text \<open>
  A stall of a queue-fed primary instance: the receive loop ends with the 32-bit
  sample count at zero. For a queue that delivers fewer than \<open>2 ^ 32\<close> samples this
  means that it delivered none.
\<close>

definition stalls :: "cycle_feed \<Rightarrow> PIOS_SENSORS_Instance \<Rightarrow> bool" where
  "stalls feed sensor \<longleftrightarrow>
     has_accel_bit (sensor_type sensor) \<and> \<not> is_polled sensor \<and>
     (of_nat (length (queued (feed (sensor_id sensor)))) :: 32 word) = 0"

text \<open>
  The gate of the loop body: an instance is served in a cycle unless it is the
  auxiliary magnetometer and the skip counter is not zero.
\<close>

definition served :: "8 word \<Rightarrow> PIOS_SENSORS_Instance \<Rightarrow> bool" where
  "served k sensor \<longleftrightarrow> sensor_type sensor \<noteq> PIOS_SENSORS_TYPE_3AXIS_AUXMAG \<or> k = 0"

text \<open>Example builds, instances and deliveries.\<close>

definition cfg_500 :: build_config where
  "cfg_500 = \<lparr>PIOS_SENSOR_RATE = 500, temp_alpha_gyro_accel = Fin (1 / 2)\<rparr>"

definition accel_sensor :: PIOS_SENSORS_Instance where
  "accel_sensor = \<lparr>sensor_id = 0, sensor_type = PIOS_SENSORS_TYPE_3AXIS_GYRO_ACCEL,
     is_polled = False, sensor_scales = (Fin 1, Fin 1)\<rparr>"

definition auxmag_sensor :: PIOS_SENSORS_Instance where
  "auxmag_sensor = \<lparr>sensor_id = 1, sensor_type = PIOS_SENSORS_TYPE_3AXIS_AUXMAG,
     is_polled = False, sensor_scales = (Fin 1, Fin 1)\<rparr>"

definition one_sample :: sensor_data where
  "one_sample = \<lparr>sensorSample3Axis = \<lparr>s3_count = 2, s3_temperature = 2500,
                     s3_sample = ((10, 20, 30), (1, 2, 3))\<rparr>,
                 sensorSample1Axis = \<lparr>s1_temperature = Fin 25, s1_sample = Fin 101325\<rparr>\<rparr>"

definition feed_none :: cycle_feed where
  "feed_none sid = \<lparr>queued = [], polled = None\<rparr>"

definition feed_one :: cycle_feed where
  "feed_one sid = \<lparr>queued = [one_sample], polled = Some one_sample\<rparr>"

text \<open>A stall in the first cycle, deliveries afterwards.\<close>

definition stall_then_recover :: "nat \<Rightarrow> cycle_feed" where
  "stall_then_recover k = (if k = 0 then feed_none else feed_one)"

definition tests_pass :: "nat \<Rightarrow> bool" where
  "tests_pass sid = True"

definition first_fails :: "nat \<Rightarrow> bool" where
  "first_fails sid = (sid \<noteq> 0)"

definition always_feed_one :: "nat \<Rightarrow> cycle_feed" where
  "always_feed_one k = feed_one"

text \<open>
  The number of cycles after which the 8-bit skip counter is back at zero: the modulus
  \<open>AUX_MAG_SKIP\<close> as long as the counter can hold every value below it.
\<close>

definition aux_mag_period :: "build_config \<Rightarrow> nat" where
  "aux_mag_period cfg = (if AUX_MAG_SKIP cfg \<le> 256 then nat (AUX_MAG_SKIP cfg) else 256)"

section \<open>Properties of the temperature bias estimator\<close>

lemma temp_alpha_baro_finite: "temp_alpha_baro = Fin ((1 / 120) / (1 / 120 + 1 / (2 * pi * 5)))"
proof -
  have "0 < 1 / 120 + 1 / (2 * pi * 5)"
    by (simp add: add_pos_pos)
  then have "1 / 120 + 1 / (2 * pi * 5) \<noteq> 0"
    by simp
  then show ?thesis
    by (simp add: temp_alpha_baro_def TEMP_DT_BARO_def TEMP_LPF_FC_BARO_def)
qed

lemma accel_temperature_update:
  "accel_temperature (updateAccelTempBias alpha temperature g) =
     (let f = (if isnan (accel_temperature g) then temperature else accel_temperature g)
      in fadd (fmul alpha (fsub temperature f)) f)"
  by (cases "agcal_accel_temp_coeff g") (auto simp: updateAccelTempBias_def Let_def)

lemma gyro_temperature_update:
  "gyro_temperature (updateGyroTempBias alpha temperature g) =
     (let f = (if isnan (gyro_temperature g) then temperature else gyro_temperature g)
      in fadd (fmul alpha (fsub temperature f)) f)"
  by (cases "agcal_gyro_temp_coeff g"; cases "agcal_gyro_temp_coeff2 g")
    (auto simp: updateGyroTempBias_def Let_def)

lemma baro_temperature_update:
  "baro_temperature (updateBaroTempBias temperature g) =
     (let f = (if isnan (baro_temperature g) then temperature else baro_temperature g)
      in fadd (fmul temp_alpha_baro (fsub temperature f)) f)"
  by (simp add: updateBaroTempBias_def Let_def)

lemma lpf_step_finite:
  "fadd (fmul (Fin a) (fsub (Fin t) (Fin f))) (Fin f) = Fin (f + a * (t - f))"
  by (simp add: fsub_def)

text \<open>
  C7. A channel's filtered temperature is NaN until its first update. On that first
  call with a finite reading the filtered temperature becomes exactly the reading; on
  a call with a finite filtered temperature \<open>f\<close> it becomes \<open>f + alpha * (raw - f)\<close>,
  with the accel/gyro constant for the accel and gyro channels and \<open>temp_alpha_baro\<close>
  for the barometer. In general every call computes
  \<open>alpha * (raw - f) + f\<close> where \<open>f\<close> is the reading itself on the first call.
\<close>

theorem temperature_filter_step:
  "(accel_temperature (updateAccelTempBias alpha raw g) =
      (let f = (if isnan (accel_temperature g) then raw else accel_temperature g)
       in fadd (fmul alpha (fsub raw f)) f)) \<and>
   (gyro_temperature (updateGyroTempBias alpha raw g) =
      (let f = (if isnan (gyro_temperature g) then raw else gyro_temperature g)
       in fadd (fmul alpha (fsub raw f)) f)) \<and>
   (baro_temperature (updateBaroTempBias raw g) =
      (let f = (if isnan (baro_temperature g) then raw else baro_temperature g)
       in fadd (fmul temp_alpha_baro (fsub raw f)) f)) \<and>
   (isnan (accel_temperature g) \<longrightarrow>
      accel_temperature (updateAccelTempBias (Fin a) (Fin t) g) = Fin t) \<and>
   (isnan (gyro_temperature g) \<longrightarrow>
      gyro_temperature (updateGyroTempBias (Fin a) (Fin t) g) = Fin t) \<and>
   (isnan (baro_temperature g) \<longrightarrow>
      baro_temperature (updateBaroTempBias (Fin t) g) = Fin t) \<and>
   (accel_temperature g = Fin f \<longrightarrow>
      accel_temperature (updateAccelTempBias (Fin a) (Fin t) g) = Fin (f + a * (t - f))) \<and>
   (gyro_temperature g = Fin f \<longrightarrow>
      gyro_temperature (updateGyroTempBias (Fin a) (Fin t) g) = Fin (f + a * (t - f))) \<and>
   (baro_temperature g = Fin f \<longrightarrow>
      (\<exists>ab. temp_alpha_baro = Fin ab \<and>
        baro_temperature (updateBaroTempBias (Fin t) g) = Fin (f + ab * (t - f))))"
  by (simp add: accel_temperature_update gyro_temperature_update baro_temperature_update
      lpf_step_finite temp_alpha_baro_finite isnan_def Let_def)

theorem temperature_filter_step_witness:
  "accel_temperature (updateAccelTempBias (Fin (1 / 2)) (Fin 25) boot_globals) = Fin 25 \<and>
   gyro_temperature (updateGyroTempBias (Fin (1 / 2)) (Fin 25) boot_globals) = Fin 25 \<and>
   baro_temperature (updateBaroTempBias (Fin 25) boot_globals) = Fin 25 \<and>
   accel_temperature (updateAccelTempBias (Fin (1 / 2)) (Fin 25)
      (boot_globals\<lparr>accel_temperature := Fin 15\<rparr>)) = Fin 20 \<and>
   gyro_temperature (updateGyroTempBias (Fin (1 / 2)) (Fin 25)
      (boot_globals\<lparr>gyro_temperature := Fin 15\<rparr>)) = Fin 20 \<and>
   (\<exists>ab. temp_alpha_baro = Fin ab \<and>
      baro_temperature (updateBaroTempBias (Fin 25)
        (boot_globals\<lparr>baro_temperature := Fin 15\<rparr>)) = Fin (15 + ab * (25 - 15)))"
  using temperature_filter_step [where g = boot_globals and a = "1 / 2" and t = 25]
    temperature_filter_step [where g = "boot_globals\<lparr>accel_temperature := Fin 15,
      gyro_temperature := Fin 15, baro_temperature := Fin 15\<rparr>"
      and a = "1 / 2" and t = 25 and f = 15]
  by (simp add: boot_globals_def isnan_def updateAccelTempBias_def updateGyroTempBias_def
      updateBaroTempBias_def Let_def)

lemma boundf_finite:
  "lo \<le> hi \<Longrightarrow> boundf (Fin t) (Fin hi) (Fin lo) = Fin (clamp_extent lo hi t)"
  by (auto simp: boundf_def fgt_def fge_def clamp_extent_def)

lemma accel_bias_recomputed:
  assumes "accel_temp_calibrated g" "accel_temp_calibration_count g = 0"
  shows "accel_temp_bias (updateAccelTempBias alpha t g) =
     (let ctemp = boundf (accel_temperature (updateAccelTempBias alpha t g))
                    (agcal_temp_calibrated_extent_max g) (agcal_temp_calibrated_extent_min g)
      in (fmul (fst (agcal_accel_temp_coeff g)) ctemp,
          fmul (fst (snd (agcal_accel_temp_coeff g))) ctemp,
          fmul (snd (snd (agcal_accel_temp_coeff g))) ctemp))"
  using assms by (cases "agcal_accel_temp_coeff g") (auto simp: updateAccelTempBias_def Let_def)

lemma gyro_bias_recomputed:
  assumes "gyro_temp_calibrated g" "gyro_temp_calibration_count g = 0"
  shows "gyro_temp_bias (updateGyroTempBias alpha t g) =
     (let ctemp = boundf (gyro_temperature (updateGyroTempBias alpha t g))
                    (agcal_temp_calibrated_extent_max g) (agcal_temp_calibrated_extent_min g);
          c = agcal_gyro_temp_coeff g; c2 = agcal_gyro_temp_coeff2 g
      in (fmul (fadd (fst c) (fmul (fst c2) ctemp)) ctemp,
          fmul (fadd (fst (snd c)) (fmul (fst (snd c2)) ctemp)) ctemp,
          fmul (fadd (snd (snd c)) (fmul (snd (snd c2)) ctemp)) ctemp))"
  using assms by (cases "agcal_gyro_temp_coeff g"; cases "agcal_gyro_temp_coeff2 g")
    (auto simp: updateGyroTempBias_def Let_def)

lemma baro_bias_recomputed:
  assumes "baro_temp_correction_enabled g" "baro_temp_calibration_count g = 0"
  shows "baro_temp_bias (updateBaroTempBias t g) =
     (let ctemp = boundf (baro_temperature (updateBaroTempBias t g))
                    (baroCorrectionExtent_max g) (baroCorrectionExtent_min g)
      in fadd (baroCorrection_a g)
           (fmul (fadd (fmul (fadd (fmul (baroCorrection_d g) ctemp) (baroCorrection_c g)) ctemp)
                       (baroCorrection_b g)) ctemp))"
  using assms by (auto simp: updateBaroTempBias_def Let_def)

text \<open>
  C5. A bias is recomputed on a call that finds the channel's calibration enabled and
  its countdown at zero. With a finite extent \<open>lo \<le> hi\<close>, finite coefficients and a
  finite filtered temperature \<open>T\<close> after the call's filter step, the new bias is the
  channel's polynomial at \<open>T\<close> clamped into the extent: \<open>coeff * c\<close> per axis for the
  accelerometer, \<open>(coeff + coeff2 * c) * c\<close> per axis for the gyro and
  \<open>a + ((d * c + c3) * c + b) * c\<close> for the barometer.
\<close>

theorem temp_bias_polynomial:
  "(accel_temp_calibrated g \<and> accel_temp_calibration_count g = 0 \<and>
    agcal_temp_calibrated_extent_min g = Fin lo \<and> agcal_temp_calibrated_extent_max g = Fin hi \<and>
    lo \<le> hi \<and> agcal_accel_temp_coeff g = (Fin cx, Fin cy, Fin cz) \<and>
    accel_temperature (updateAccelTempBias alpha t g) = Fin T \<longrightarrow>
      accel_temp_bias (updateAccelTempBias alpha t g) =
        (Fin (cx * clamp_extent lo hi T), Fin (cy * clamp_extent lo hi T),
         Fin (cz * clamp_extent lo hi T))) \<and>
   (gyro_temp_calibrated g \<and> gyro_temp_calibration_count g = 0 \<and>
    agcal_temp_calibrated_extent_min g = Fin lo \<and> agcal_temp_calibrated_extent_max g = Fin hi \<and>
    lo \<le> hi \<and> agcal_gyro_temp_coeff g = (Fin gx, Fin gy, Fin gz) \<and>
    agcal_gyro_temp_coeff2 g = (Fin gxx, Fin gyy, Fin gzz) \<and>
    gyro_temperature (updateGyroTempBias alpha t g) = Fin T \<longrightarrow>
      gyro_temp_bias (updateGyroTempBias alpha t g) =
        (Fin ((gx + gxx * clamp_extent lo hi T) * clamp_extent lo hi T),
         Fin ((gy + gyy * clamp_extent lo hi T) * clamp_extent lo hi T),
         Fin ((gz + gzz * clamp_extent lo hi T) * clamp_extent lo hi T))) \<and>
   (baro_temp_correction_enabled g \<and> baro_temp_calibration_count g = 0 \<and>
    baroCorrectionExtent_min g = Fin lo \<and> baroCorrectionExtent_max g = Fin hi \<and>
    lo \<le> hi \<and> baroCorrection_a g = Fin a \<and> baroCorrection_b g = Fin b \<and>
    baroCorrection_c g = Fin c \<and> baroCorrection_d g = Fin d \<and>
    baro_temperature (updateBaroTempBias t g) = Fin T \<longrightarrow>
      baro_temp_bias (updateBaroTempBias t g) =
        Fin (a + ((d * clamp_extent lo hi T + c) * clamp_extent lo hi T + b)
                 * clamp_extent lo hi T))"
  by (simp add: accel_bias_recomputed gyro_bias_recomputed baro_bias_recomputed
      boundf_finite Let_def)

theorem temp_bias_polynomial_witness:
  "accel_temp_bias (updateAccelTempBias (Fin (1 / 2)) (Fin 60) calibrated_globals) =
     (Fin 50, Fin 100, Fin 150) \<and>
   gyro_temp_bias (updateGyroTempBias (Fin (1 / 2)) (Fin 60) calibrated_globals) =
     (Fin 2550, Fin 2600, Fin 2650) \<and>
   baro_temp_bias (updateBaroTempBias (Fin 60) calibrated_globals) = Fin 127551"
  using temp_bias_polynomial [where g = calibrated_globals and alpha = "Fin (1 / 2)"
      and t = "Fin 60" and T = 60 and lo = 0 and hi = 50
      and cx = 1 and cy = 2 and cz = 3 and gx = 1 and gy = 2 and gz = 3
      and gxx = 1 and gyy = 1 and gzz = 1 and a = 1 and b = 1 and c = 1 and d = 1]
  by (simp add: calibrated_globals_def boot_globals_def accel_temperature_update
      gyro_temperature_update baro_temperature_update temp_alpha_baro_finite
      isnan_def fsub_def clamp_extent_def Let_def)

section \<open>Cadence of the bias recomputation\<close>

lemma accel_count_update:
  "accel_temp_calibration_count (updateAccelTempBias alpha t g) =
     (if accel_temp_calibrated g \<and> accel_temp_calibration_count g = 0
      then TEMP_CALIB_INTERVAL else accel_temp_calibration_count g) - 1"
  by (cases "agcal_accel_temp_coeff g") (auto simp: updateAccelTempBias_def Let_def)

lemma accel_bias_kept:
  "\<not> (accel_temp_calibrated g \<and> accel_temp_calibration_count g = 0) \<Longrightarrow>
     accel_temp_bias (updateAccelTempBias alpha t g) = accel_temp_bias g"
  by (cases "agcal_accel_temp_coeff g") (auto simp: updateAccelTempBias_def Let_def)

lemma accel_calibrated_kept:
  "accel_temp_calibrated (updateAccelTempBias alpha t g) = accel_temp_calibrated g"
  by (cases "agcal_accel_temp_coeff g") (auto simp: updateAccelTempBias_def Let_def)

lemma gyro_count_update:
  "gyro_temp_calibration_count (updateGyroTempBias alpha t g) =
     (if gyro_temp_calibrated g \<and> gyro_temp_calibration_count g = 0
      then TEMP_CALIB_INTERVAL else gyro_temp_calibration_count g) - 1"
  by (cases "agcal_gyro_temp_coeff g"; cases "agcal_gyro_temp_coeff2 g")
    (auto simp: updateGyroTempBias_def Let_def)

lemma gyro_bias_kept:
  "\<not> (gyro_temp_calibrated g \<and> gyro_temp_calibration_count g = 0) \<Longrightarrow>
     gyro_temp_bias (updateGyroTempBias alpha t g) = gyro_temp_bias g"
  by (cases "agcal_gyro_temp_coeff g"; cases "agcal_gyro_temp_coeff2 g")
    (auto simp: updateGyroTempBias_def Let_def)

lemma gyro_calibrated_kept:
  "gyro_temp_calibrated (updateGyroTempBias alpha t g) = gyro_temp_calibrated g"
  by (cases "agcal_gyro_temp_coeff g"; cases "agcal_gyro_temp_coeff2 g")
    (auto simp: updateGyroTempBias_def Let_def)

lemma baro_count_update:
  "baro_temp_calibration_count (updateBaroTempBias t g) =
     (if baro_temp_correction_enabled g \<and> baro_temp_calibration_count g = 0
      then BARO_TEMP_CALIB_INTERVAL else baro_temp_calibration_count g) - 1"
  by (auto simp: updateBaroTempBias_def Let_def)

lemma baro_bias_kept:
  "\<not> (baro_temp_correction_enabled g \<and> baro_temp_calibration_count g = 0) \<Longrightarrow>
     baro_temp_bias (updateBaroTempBias t g) = baro_temp_bias g"
  by (auto simp: updateBaroTempBias_def Let_def)

lemma baro_enabled_kept:
  "baro_temp_correction_enabled (updateBaroTempBias t g) = baro_temp_correction_enabled g"
  by (auto simp: updateBaroTempBias_def Let_def)

lemma countdown_pred: "(w :: 8 word) \<noteq> 0 \<Longrightarrow> unat (w - 1) = unat w - 1"
  by (simp add: unat_minus_one)

text \<open>While the countdown lasts, the bias stays as it is, enabled or not.\<close>

lemma accel_run_kept:
  "length ts \<le> unat (accel_temp_calibration_count g) \<Longrightarrow>
     accel_temp_bias (accel_run alpha ts g) = accel_temp_bias g \<and>
     unat (accel_temp_calibration_count (accel_run alpha ts g)) =
       unat (accel_temp_calibration_count g) - length ts"
proof (induction ts arbitrary: g)
  case Nil
  then show ?case by simp
next
  case (Cons t ts)
  let ?g = "updateAccelTempBias alpha t g"
  from Cons.prems have nz: "accel_temp_calibration_count g \<noteq> 0"
    by auto
  then have cnt: "unat (accel_temp_calibration_count ?g) = unat (accel_temp_calibration_count g) - 1"
    by (simp add: accel_count_update countdown_pred)
  from nz have bias: "accel_temp_bias ?g = accel_temp_bias g"
    by (simp add: accel_bias_kept)
  from Cons.prems cnt have "length ts \<le> unat (accel_temp_calibration_count ?g)"
    by simp
  from Cons.IH [OF this] cnt bias show ?case
    by simp
qed

lemma gyro_run_kept:
  "length ts \<le> unat (gyro_temp_calibration_count g) \<Longrightarrow>
     gyro_temp_bias (gyro_run alpha ts g) = gyro_temp_bias g \<and>
     unat (gyro_temp_calibration_count (gyro_run alpha ts g)) =
       unat (gyro_temp_calibration_count g) - length ts"
proof (induction ts arbitrary: g)
  case Nil
  then show ?case by simp
next
  case (Cons t ts)
  let ?g = "updateGyroTempBias alpha t g"
  from Cons.prems have nz: "gyro_temp_calibration_count g \<noteq> 0"
    by auto
  then have cnt: "unat (gyro_temp_calibration_count ?g) = unat (gyro_temp_calibration_count g) - 1"
    by (simp add: gyro_count_update countdown_pred)
  from nz have bias: "gyro_temp_bias ?g = gyro_temp_bias g"
    by (simp add: gyro_bias_kept)
  from Cons.prems cnt have "length ts \<le> unat (gyro_temp_calibration_count ?g)"
    by simp
  from Cons.IH [OF this] cnt bias show ?case
    by simp
qed

lemma baro_run_kept:
  "length ts \<le> unat (baro_temp_calibration_count g) \<Longrightarrow>
     baro_temp_bias (baro_run ts g) = baro_temp_bias g \<and>
     unat (baro_temp_calibration_count (baro_run ts g)) =
       unat (baro_temp_calibration_count g) - length ts"
proof (induction ts arbitrary: g)
  case Nil
  then show ?case by simp
next
  case (Cons t ts)
  let ?g = "updateBaroTempBias t g"
  from Cons.prems have nz: "baro_temp_calibration_count g \<noteq> 0"
    by auto
  then have cnt: "unat (baro_temp_calibration_count ?g) = unat (baro_temp_calibration_count g) - 1"
    by (simp add: baro_count_update countdown_pred)
  from nz have bias: "baro_temp_bias ?g = baro_temp_bias g"
    by (simp add: baro_bias_kept)
  from Cons.prems cnt have "length ts \<le> unat (baro_temp_calibration_count ?g)"
    by simp
  from Cons.IH [OF this] cnt bias show ?case
    by simp
qed

text \<open>With calibration disabled the bias is never written and the countdown keeps ticking.\<close>

lemma accel_run_disabled:
  "\<not> accel_temp_calibrated g \<Longrightarrow>
     accel_temp_bias (accel_run alpha ts g) = accel_temp_bias g \<and>
     accel_temp_calibration_count (accel_run alpha ts g) =
       accel_temp_calibration_count g - of_nat (length ts)"
proof (induction ts arbitrary: g)
  case Nil
  then show ?case by simp
next
  case (Cons t ts)
  from Cons.prems have "\<not> accel_temp_calibrated (updateAccelTempBias alpha t g)"
    by (simp add: accel_calibrated_kept)
  from Cons.IH [OF this] Cons.prems show ?case
    by (simp add: accel_bias_kept accel_count_update)
qed

lemma gyro_run_disabled:
  "\<not> gyro_temp_calibrated g \<Longrightarrow>
     gyro_temp_bias (gyro_run alpha ts g) = gyro_temp_bias g \<and>
     gyro_temp_calibration_count (gyro_run alpha ts g) =
       gyro_temp_calibration_count g - of_nat (length ts)"
proof (induction ts arbitrary: g)
  case Nil
  then show ?case by simp
next
  case (Cons t ts)
  from Cons.prems have "\<not> gyro_temp_calibrated (updateGyroTempBias alpha t g)"
    by (simp add: gyro_calibrated_kept)
  from Cons.IH [OF this] Cons.prems show ?case
    by (simp add: gyro_bias_kept gyro_count_update)
qed

lemma baro_run_disabled:
  "\<not> baro_temp_correction_enabled g \<Longrightarrow>
     baro_temp_bias (baro_run ts g) = baro_temp_bias g \<and>
     baro_temp_calibration_count (baro_run ts g) =
       baro_temp_calibration_count g - of_nat (length ts)"
proof (induction ts arbitrary: g)
  case Nil
  then show ?case by simp
next
  case (Cons t ts)
  from Cons.prems have "\<not> baro_temp_correction_enabled (updateBaroTempBias t g)"
    by (simp add: baro_enabled_kept)
  from Cons.IH [OF this] Cons.prems show ?case
    by (simp add: baro_bias_kept baro_count_update)
qed

text \<open>
  C6. For each channel: (1) every call decrements the countdown, after reloading it
  with the interval (30 for accel and gyro, 10 for the barometer) when calibration is
  enabled and the countdown is zero; it wraps from 0 to 255 when calibration is
  disabled; (2) a call that does not find calibration enabled with the countdown at
  zero leaves the bias unchanged; (3) after a call that recomputes the bias, the next
  29 calls (9 for the barometer) leave it unchanged, so that any 30 (10) consecutive
  calls change it at most once; (4) with calibration disabled no run of calls changes
  the bias, while the countdown goes down by one per call.
\<close>

theorem temp_bias_cadence:
  "(accel_temp_calibration_count (updateAccelTempBias alpha t g) =
      (if accel_temp_calibrated g \<and> accel_temp_calibration_count g = 0
       then 30 else accel_temp_calibration_count g) - 1) \<and>
   (gyro_temp_calibration_count (updateGyroTempBias alpha t g) =
      (if gyro_temp_calibrated g \<and> gyro_temp_calibration_count g = 0
       then 30 else gyro_temp_calibration_count g) - 1) \<and>
   (baro_temp_calibration_count (updateBaroTempBias t g) =
      (if baro_temp_correction_enabled g \<and> baro_temp_calibration_count g = 0
       then 10 else baro_temp_calibration_count g) - 1) \<and>
   (\<not> (accel_temp_calibrated g \<and> accel_temp_calibration_count g = 0) \<longrightarrow>
      accel_temp_bias (updateAccelTempBias alpha t g) = accel_temp_bias g) \<and>
   (\<not> (gyro_temp_calibrated g \<and> gyro_temp_calibration_count g = 0) \<longrightarrow>
      gyro_temp_bias (updateGyroTempBias alpha t g) = gyro_temp_bias g) \<and>
   (\<not> (baro_temp_correction_enabled g \<and> baro_temp_calibration_count g = 0) \<longrightarrow>
      baro_temp_bias (updateBaroTempBias t g) = baro_temp_bias g) \<and>
   (accel_temp_calibrated g \<and> accel_temp_calibration_count g = 0 \<and> length ts \<le> 29 \<longrightarrow>
      accel_temp_bias (accel_run alpha ts (updateAccelTempBias alpha t g)) =
        accel_temp_bias (updateAccelTempBias alpha t g)) \<and>
   (gyro_temp_calibrated g \<and> gyro_temp_calibration_count g = 0 \<and> length ts \<le> 29 \<longrightarrow>
      gyro_temp_bias (gyro_run alpha ts (updateGyroTempBias alpha t g)) =
        gyro_temp_bias (updateGyroTempBias alpha t g)) \<and>
   (baro_temp_correction_enabled g \<and> baro_temp_calibration_count g = 0 \<and> length ts \<le> 9 \<longrightarrow>
      baro_temp_bias (baro_run ts (updateBaroTempBias t g)) =
        baro_temp_bias (updateBaroTempBias t g)) \<and>
   (\<not> accel_temp_calibrated g \<longrightarrow>
      accel_temp_bias (accel_run alpha ts g) = accel_temp_bias g \<and>
      accel_temp_calibration_count (accel_run alpha ts g) =
        accel_temp_calibration_count g - of_nat (length ts)) \<and>
   (\<not> gyro_temp_calibrated g \<longrightarrow>
      gyro_temp_bias (gyro_run alpha ts g) = gyro_temp_bias g \<and>
      gyro_temp_calibration_count (gyro_run alpha ts g) =
        gyro_temp_calibration_count g - of_nat (length ts)) \<and>
   (\<not> baro_temp_correction_enabled g \<longrightarrow>
      baro_temp_bias (baro_run ts g) = baro_temp_bias g \<and>
      baro_temp_calibration_count (baro_run ts g) =
        baro_temp_calibration_count g - of_nat (length ts))"
proof -
  have a: "accel_temp_bias (accel_run alpha ts (updateAccelTempBias alpha t g)) =
        accel_temp_bias (updateAccelTempBias alpha t g)"
    if "accel_temp_calibrated g" "accel_temp_calibration_count g = 0" "length ts \<le> 29"
  proof -
    from that have "unat (accel_temp_calibration_count (updateAccelTempBias alpha t g)) = 29"
      by (simp add: accel_count_update TEMP_CALIB_INTERVAL_def)
    with that(3) show ?thesis
      by (simp add: accel_run_kept)
  qed
  have b: "gyro_temp_bias (gyro_run alpha ts (updateGyroTempBias alpha t g)) =
        gyro_temp_bias (updateGyroTempBias alpha t g)"
    if "gyro_temp_calibrated g" "gyro_temp_calibration_count g = 0" "length ts \<le> 29"
  proof -
    from that have "unat (gyro_temp_calibration_count (updateGyroTempBias alpha t g)) = 29"
      by (simp add: gyro_count_update TEMP_CALIB_INTERVAL_def)
    with that(3) show ?thesis
      by (simp add: gyro_run_kept)
  qed
  have c: "baro_temp_bias (baro_run ts (updateBaroTempBias t g)) =
        baro_temp_bias (updateBaroTempBias t g)"
    if "baro_temp_correction_enabled g" "baro_temp_calibration_count g = 0" "length ts \<le> 9"
  proof -
    from that have "unat (baro_temp_calibration_count (updateBaroTempBias t g)) = 9"
      by (simp add: baro_count_update BARO_TEMP_CALIB_INTERVAL_def)
    with that(3) show ?thesis
      by (simp add: baro_run_kept)
  qed
  have d: "accel_temp_calibration_count (updateAccelTempBias alpha t g) =
      (if accel_temp_calibrated g \<and> accel_temp_calibration_count g = 0
       then 30 else accel_temp_calibration_count g) - 1"
    by (simp add: accel_count_update TEMP_CALIB_INTERVAL_def)
  have e: "gyro_temp_calibration_count (updateGyroTempBias alpha t g) =
      (if gyro_temp_calibrated g \<and> gyro_temp_calibration_count g = 0
       then 30 else gyro_temp_calibration_count g) - 1"
    by (simp add: gyro_count_update TEMP_CALIB_INTERVAL_def)
  have f: "baro_temp_calibration_count (updateBaroTempBias t g) =
      (if baro_temp_correction_enabled g \<and> baro_temp_calibration_count g = 0
       then 10 else baro_temp_calibration_count g) - 1"
    by (simp add: baro_count_update BARO_TEMP_CALIB_INTERVAL_def)
  show ?thesis
    using a b c d e f accel_bias_kept [of g alpha t] gyro_bias_kept [of g alpha t]
      baro_bias_kept [of g t] accel_run_disabled [of g alpha ts]
      gyro_run_disabled [of g alpha ts] baro_run_disabled [of g ts]
    by blast
qed

theorem temp_bias_cadence_witness:
  "accel_temp_bias (accel_run (Fin (1 / 2)) [Fin 10, Fin 20]
       (updateAccelTempBias (Fin (1 / 2)) (Fin 60) calibrated_globals)) =
     accel_temp_bias (updateAccelTempBias (Fin (1 / 2)) (Fin 60) calibrated_globals) \<and>
   gyro_temp_bias (gyro_run (Fin (1 / 2)) [Fin 10, Fin 20]
       (updateGyroTempBias (Fin (1 / 2)) (Fin 60) calibrated_globals)) =
     gyro_temp_bias (updateGyroTempBias (Fin (1 / 2)) (Fin 60) calibrated_globals) \<and>
   baro_temp_bias (baro_run [Fin 10, Fin 20]
       (updateBaroTempBias (Fin 60) calibrated_globals)) =
     baro_temp_bias (updateBaroTempBias (Fin 60) calibrated_globals) \<and>
   accel_temp_bias (accel_run (Fin (1 / 2)) [Fin 10, Fin 20] boot_globals) = (Fin 0, Fin 0, Fin 0) \<and>
   accel_temp_calibration_count (accel_run (Fin (1 / 2)) [Fin 10, Fin 20] boot_globals) = 254 \<and>
   gyro_temp_bias (gyro_run (Fin (1 / 2)) [Fin 10, Fin 20] boot_globals) = (Fin 0, Fin 0, Fin 0) \<and>
   baro_temp_bias (baro_run [Fin 10, Fin 20] boot_globals) = Fin 0 \<and>
   accel_temp_calibration_count (updateAccelTempBias (Fin (1 / 2)) (Fin 60) calibrated_globals) = 29 \<and>
   baro_temp_calibration_count (updateBaroTempBias (Fin 60) boot_globals) = 255"
  using temp_bias_cadence [where g = calibrated_globals and alpha = "Fin (1 / 2)"
      and t = "Fin 60" and ts = "[Fin 10, Fin 20]"]
    temp_bias_cadence [where g = boot_globals and alpha = "Fin (1 / 2)"
      and t = "Fin 60" and ts = "[Fin 10, Fin 20]"]
  by (simp add: calibrated_globals_def boot_globals_def)

section \<open>Properties of the averaging step\<close>

lemma mean3_finite:
  assumes "ctx_count c \<noteq> 0" "slot i (ctx_accum c) = (ax, ay, az)"
  shows "mean3 c (Fin k) i =
     (Fin (real_of_int (sint ax) / real (unat (ctx_count c)) * k),
      Fin (real_of_int (sint ay) / real (unat (ctx_count c)) * k),
      Fin (real_of_int (sint az) / real (unat (ctx_count c)) * k))"
  using assms
  by (simp add: mean3_def float_of_u32_def float_of_i32_def Let_def unsigned_eq_0_iff)

lemma mean_temperature_finite:
  assumes "ctx_count c \<noteq> 0"
  shows "mean_temperature c =
     Fin (real_of_int (sint (ctx_temperature c)) / real (unat (ctx_count c)) * (1 / 100))"
  using assms
  by (simp add: mean_temperature_def float_of_u32_def float_of_i32_def Let_def unsigned_eq_0_iff)

lemma vplus_assoc: "vplus (vplus a b) c = vplus a (vplus b c)"
  by (simp add: vplus_def split: prod.splits)

lemma vplus_zero: "vplus a (0, 0, 0) = a"
  by (simp add: vplus_def split: prod.splits)

lemma accumulate_slot_eq:
  "accumulate_slot s3 c i =
     c\<lparr>ctx_accum := slot_update i (vplus (slot i (ctx_accum c)) (widen (slot i (s3_sample s3))))
                       (ctx_accum c)\<rparr>"
  by (simp add: accumulate_slot_def vplus_def widen_def Let_def split: prod.splits)

lemma sensor_slots: "[0..<MAX_SENSORS_PER_INSTANCE] = [0, Suc 0]"
  by (simp add: MAX_SENSORS_PER_INSTANCE_def numeral_2_eq_2)

lemma accumulateSamples_eq:
  assumes "ctx_accum c = (a0, a1)" "s3_sample (sensorSample3Axis d) = (v0, v1)"
  shows "accumulateSamples c d =
     c\<lparr>ctx_accum :=
          (if 0 < unat (s3_count (sensorSample3Axis d)) then vplus a0 (widen v0) else a0,
           if 1 < unat (s3_count (sensorSample3Axis d)) then vplus a1 (widen v1) else a1),
        ctx_temperature := ctx_temperature c + scast (s3_temperature (sensorSample3Axis d)),
        ctx_count := ctx_count c + 1\<rparr>"
proof -
  consider "unat (s3_count (sensorSample3Axis d)) = 0"
    | "unat (s3_count (sensorSample3Axis d)) = 1"
    | "1 < unat (s3_count (sensorSample3Axis d))"
    by linarith
  then show ?thesis
  proof cases
    case 1
    with assms show ?thesis
      by (simp add: accumulateSamples_def Let_def sensor_slots)
  next
    case 2
    with assms show ?thesis
      by (simp add: accumulateSamples_def Let_def sensor_slots accumulate_slot_eq)
  next
    case 3
    with assms show ?thesis
      by (simp add: accumulateSamples_def Let_def sensor_slots accumulate_slot_eq)
  qed
qed

lemma accumulated_run:
  "foldl accumulateSamples c ds =
     c\<lparr>ctx_accum := (vplus (fst (ctx_accum c)) (raw_sum 0 ds),
                      vplus (snd (ctx_accum c)) (raw_sum 1 ds)),
        ctx_temperature := ctx_temperature c + raw_temperature_sum ds,
        ctx_count := ctx_count c + of_nat (length ds)\<rparr>"
proof (induction ds arbitrary: c)
  case Nil
  show ?case
    by (simp add: vplus_zero)
next
  case (Cons d ds)
  obtain a0 a1 where a: "ctx_accum c = (a0, a1)"
    by (cases "ctx_accum c")
  obtain v0 v1 where v: "s3_sample (sensorSample3Axis d) = (v0, v1)"
    by (cases "s3_sample (sensorSample3Axis d)")
  show ?case
    by (simp add: Cons.IH accumulateSamples_eq [OF a v] a v vplus_assoc add.assoc)
qed

lemma accumulated_from_clear:
  "foldl accumulateSamples (clearContext old) ds =
     \<lparr>ctx_accum = (raw_sum 0 ds, raw_sum 1 ds),
      ctx_temperature = raw_temperature_sum ds,
      ctx_count = of_nat (length ds)\<rparr>"
proof -
  have "vplus (0, 0, 0) a = a" for a
    by (simp add: vplus_def split: prod.splits)
  then show ?thesis
    by (cases old) (simp add: accumulated_run clearContext_def)
qed

lemma processSamples3d_mean:
  assumes "ctx_count c \<noteq> 0" and "ctx_accum c = ((ax, ay, az), (gx, gy, gz))"
    and "sensor_scales sensor = (Fin ka, Fin kg)"
    and "n = real (unat (ctx_count c))"
    and "T = Fin (real_of_int (sint (ctx_temperature c)) / n * (1 / 100))"
    and "ma = (Fin (real_of_int (sint ax) / n * ka), Fin (real_of_int (sint ay) / n * ka),
               Fin (real_of_int (sint az) / n * ka))"
    and "mg = (Fin (real_of_int (sint gx) / n * kg), Fin (real_of_int (sint gy) / n * kg),
               Fin (real_of_int (sint gz) / n * kg))"
  shows "processSamples3d alpha c sensor g =
     (case sensor_type sensor of
        PIOS_SENSORS_TYPE_3AXIS_ACCEL \<Rightarrow> handleAccel alpha ma T g
      | PIOS_SENSORS_TYPE_3AXIS_GYRO \<Rightarrow> handleGyro alpha ma T g
      | PIOS_SENSORS_TYPE_3AXIS_GYRO_ACCEL \<Rightarrow> handleGyro alpha mg T (handleAccel alpha ma T g)
      | PIOS_SENSORS_TYPE_3AXIS_MAG \<Rightarrow> handleMag ma T g
      | PIOS_SENSORS_TYPE_3AXIS_AUXMAG \<Rightarrow> handleAuxMag ma g
      | PIOS_SENSORS_TYPE_1AXIS_BARO \<Rightarrow> g)"
proof -
  have sa: "slot 0 (ctx_accum c) = (ax, ay, az)"
    and sg: "slot (Suc 0) (ctx_accum c) = (gx, gy, gz)"
    using assms(2) by simp_all
  have m1: "mean3 c (Fin ka) 0 = ma"
    unfolding assms(6) assms(4) by (rule mean3_finite [OF assms(1) sa])
  have m2: "mean3 c (Fin kg) (Suc 0) = mg"
    unfolding assms(7) assms(4) by (rule mean3_finite [OF assms(1) sg])
  have m3: "mean_temperature c = T"
    unfolding assms(5) assms(4) by (rule mean_temperature_finite [OF assms(1)])
  show ?thesis
    by (cases "sensor_type sensor")
      (simp_all only: processSamples3d_def Let_def assms(3) m1 m2 m3 slot.simps One_nat_def
        has_accel_bit.simps has_gyro_bit.simps PIOS_SENSORS_TYPE.simps simp_thms if_True if_False
        nat.simps)
qed

text \<open>
  C3. For a context with a non-zero count, \<open>processSamples3d\<close> hands each channel's
  handler the mean of that channel: axis by axis the signed accumulated sum of the
  channel's slot divided by the count and multiplied by the channel's scale (slot and
  scale 0 for the accelerometer, the magnetometers and a gyro on its own, slot and
  scale 1 for the gyro of a combined instance), together with the signed temperature
  sum divided by the count, times 0.01. The context that \<open>accumulateSamples\<close> builds
  from a cleared one over a run of samples holds the 32-bit sums of the raw vectors
  and of the raw temperatures, and the number of samples as its count.
\<close>

theorem mean_of_context:
  assumes "ctx_count c \<noteq> 0" and "ctx_accum c = ((ax, ay, az), (gx, gy, gz))"
    and "sensor_scales sensor = (Fin ka, Fin kg)"
  shows "(let n = real (unat (ctx_count c));
              T = Fin (real_of_int (sint (ctx_temperature c)) / n * (1 / 100));
              ma = (Fin (real_of_int (sint ax) / n * ka), Fin (real_of_int (sint ay) / n * ka),
                    Fin (real_of_int (sint az) / n * ka));
              mg = (Fin (real_of_int (sint gx) / n * kg), Fin (real_of_int (sint gy) / n * kg),
                    Fin (real_of_int (sint gz) / n * kg))
          in processSamples3d alpha c sensor g =
               (case sensor_type sensor of
                  PIOS_SENSORS_TYPE_3AXIS_ACCEL \<Rightarrow> handleAccel alpha ma T g
                | PIOS_SENSORS_TYPE_3AXIS_GYRO \<Rightarrow> handleGyro alpha ma T g
                | PIOS_SENSORS_TYPE_3AXIS_GYRO_ACCEL \<Rightarrow>
                    handleGyro alpha mg T (handleAccel alpha ma T g)
                | PIOS_SENSORS_TYPE_3AXIS_MAG \<Rightarrow> handleMag ma T g
                | PIOS_SENSORS_TYPE_3AXIS_AUXMAG \<Rightarrow> handleAuxMag ma g
                | PIOS_SENSORS_TYPE_1AXIS_BARO \<Rightarrow> g)) \<and>
         foldl accumulateSamples (clearContext old) ds =
           \<lparr>ctx_accum = (raw_sum 0 ds, raw_sum 1 ds),
            ctx_temperature = raw_temperature_sum ds,
            ctx_count = of_nat (length ds)\<rparr>"
  unfolding Let_def
  by (rule conjI [OF processSamples3d_mean [OF assms refl refl refl refl]
        accumulated_from_clear])

theorem mean_of_context_witness:
  "foldl accumulateSamples
      (clearContext \<lparr>ctx_accum = ((7, 7, 7), (7, 7, 7)), ctx_temperature = 7, ctx_count = 7\<rparr>)
      [one_sample, one_sample] =
     \<lparr>ctx_accum = ((20, 40, 60), (2, 4, 6)), ctx_temperature = 5000, ctx_count = 2\<rparr> \<and>
   processSamples3d (Fin (1 / 2))
      \<lparr>ctx_accum = ((20, 40, 60), (2, 4, 6)), ctx_temperature = 5000, ctx_count = 2\<rparr>
      accel_sensor boot_globals =
     handleGyro (Fin (1 / 2)) (Fin 1, Fin 2, Fin 3) (Fin 25)
       (handleAccel (Fin (1 / 2)) (Fin 10, Fin 20, Fin 30) (Fin 25) boot_globals)"
  using mean_of_context [where c = "\<lparr>ctx_accum = ((20, 40, 60), (2, 4, 6)),
      ctx_temperature = 5000, ctx_count = 2\<rparr>" and sensor = accel_sensor
      and ax = 20 and ay = 40 and az = 60 and gx = 2 and gy = 4 and gz = 6
      and ka = 1 and kg = 1 and alpha = "Fin (1 / 2)" and g = boot_globals
      and old = "\<lparr>ctx_accum = ((7, 7, 7), (7, 7, 7)), ctx_temperature = 7, ctx_count = 7\<rparr>"
      and ds = "[one_sample, one_sample]"]
  by (simp add: accel_sensor_def one_sample_def widen_def vplus_def Let_def)

section \<open>Properties of the barometer handler\<close>

lemma baro_exponent_not_int: "(200 / 1051 :: real) \<notin> \<int>"
proof
  assume "(200 / 1051 :: real) \<in> \<int>"
  then obtain k :: int where k: "(200 / 1051 :: real) = of_int k"
    by (auto elim: Ints_cases)
  have "(0::real) < of_int k" "(of_int k :: real) < 1"
    by (simp_all flip: k)
  then have "0 < k" "k < 1"
    by simp_all
  then show False by simp
qed

lemma baro_quotient:
  "underflow32 (fdiv (Fin x) PIOS_CONST_MKS_STD_ATMOSPHERE_F) =
     (if \<bar>x\<bar> \<le> 101325 / 2 ^ 150 then Fin 0 else Fin (x / 101325))"
proof -
  have "\<bar>x / 101325\<bar> \<le> 1 / 2 ^ 150 \<longleftrightarrow> \<bar>x\<bar> \<le> 101325 / 2 ^ 150"
    by (simp add: field_simps)
  then show ?thesis
    by (simp add: underflow32_def PIOS_CONST_MKS_STD_ATMOSPHERE_F_def)
qed

lemma baro_altitude_positive:
  assumes "101325 / 2 ^ 150 < x"
  shows "baro_altitude (Fin x) = Fin (44330 * (1 - (x / 101325) powr (1 / 5.255)))"
proof -
  have "(0::real) < 101325 / 2 ^ 150"
    by simp
  with assms have "0 < x" "\<not> \<bar>x\<bar> \<le> 101325 / 2 ^ 150"
    by linarith+
  then show ?thesis
    by (simp add: baro_altitude_def baro_quotient fsub_def)
qed

lemma baro_altitude_underflow:
  "\<bar>x\<bar> \<le> 101325 / 2 ^ 150 \<Longrightarrow> baro_altitude (Fin x) = Fin 44330"
  by (simp add: baro_altitude_def baro_quotient fsub_def)

lemma baro_altitude_negative:
  assumes "x < - (101325 / 2 ^ 150)"
  shows "baro_altitude (Fin x) = NaN"
proof -
  have "(0::real) < 101325 / 2 ^ 150"
    by simp
  with assms have "x < 0" "\<not> \<bar>x\<bar> \<le> 101325 / 2 ^ 150"
    by linarith+
  then show ?thesis
    using baro_exponent_not_int by (simp add: baro_altitude_def baro_quotient fsub_def)
qed

lemma published_updateBaroTempBias: "published (updateBaroTempBias t g) = published g"
  by (simp add: updateBaroTempBias_def Let_def)

lemma published_handleBaro:
  "published (handleBaro sample temperature g) =
     (let p = fsub sample (baro_temp_bias (updateBaroTempBias temperature g))
      in if isnan (baro_altitude p) then published g
         else published g @ [BaroSensorSet (baro_altitude p) temperature p])"
  by (simp add: handleBaro_def Let_def published_updateBaroTempBias)

text \<open>
  C2, as the code has it. Let \<open>p\<close> be the pressure after the temperature bias has
  been subtracted. The handler publishes altitude, temperature and \<open>p\<close> exactly when
  the altitude \<open>44330 * (1 - (p / 101325) ^ (1 / 5.255))\<close> is not NaN. The quotient
  \<open>p / 101325\<close> rounds to zero when \<open>p\<close> is 0 or of magnitude at most
  \<open>101325 * 2 ^ -150\<close>; the power is then 0, the altitude is 44330 and it is published.
  For a larger positive finite \<open>p\<close> the altitude is the real number of the formula and
  is published; for a negative finite \<open>p\<close> of larger magnitude the altitude is NaN and
  nothing is published.
\<close>

theorem handleBaro_publishes:
  "(published (handleBaro sample temperature g) =
      (let p = fsub sample (baro_temp_bias (updateBaroTempBias temperature g))
       in if isnan (baro_altitude p) then published g
          else published g @ [BaroSensorSet (baro_altitude p) temperature p])) \<and>
   (fsub sample (baro_temp_bias (updateBaroTempBias temperature g)) = Fin x \<and>
    101325 / 2 ^ 150 < x \<longrightarrow>
      published (handleBaro sample temperature g) =
        published g @ [BaroSensorSet (Fin (44330 * (1 - (x / 101325) powr (1 / 5.255))))
                         temperature (Fin x)]) \<and>
   (fsub sample (baro_temp_bias (updateBaroTempBias temperature g)) = Fin x \<and>
    x < - (101325 / 2 ^ 150) \<longrightarrow>
      baro_altitude (Fin x) = NaN \<and> published (handleBaro sample temperature g) = published g) \<and>
   (fsub sample (baro_temp_bias (updateBaroTempBias temperature g)) = Fin x \<and>
    \<bar>x\<bar> \<le> 101325 / 2 ^ 150 \<longrightarrow>
      published (handleBaro sample temperature g) =
        published g @ [BaroSensorSet (Fin 44330) temperature (Fin x)])"
  by (simp add: published_handleBaro Let_def baro_altitude_positive baro_altitude_negative
      baro_altitude_underflow isnan_def)

theorem handleBaro_publishes_witness:
  "published (handleBaro (Fin 101325) (Fin 20) boot_globals) =
     [BaroSensorSet (Fin 0) (Fin 20) (Fin 101325)] \<and>
   published (handleBaro (Fin (- 5)) (Fin 20) boot_globals) = [] \<and>
   published (handleBaro (Fin (- (1 / 2 ^ 140))) (Fin 20) boot_globals) =
     [BaroSensorSet (Fin 44330) (Fin 20) (Fin (- (1 / 2 ^ 140)))]"
proof -
  have p: "fsub (Fin y) (baro_temp_bias (updateBaroTempBias (Fin 20) boot_globals)) = Fin y" for y
    by (simp add: boot_globals_def updateBaroTempBias_def fsub_def Let_def isnan_def)
  have a: "(101325::real) / 2 ^ 150 < 101325"
    by simp
  have b: "(- 5::real) < - (101325 / 2 ^ 150)"
    by simp
  have c: "\<bar>- (1 / 2 ^ 140) :: real\<bar> \<le> 101325 / 2 ^ 150"
    by simp
  note w1 = handleBaro_publishes [where g = boot_globals and sample = "Fin 101325"
      and temperature = "Fin 20" and x = 101325,
      THEN conjunct2, THEN conjunct1, THEN mp, OF conjI [OF p a]]
  note w2 = handleBaro_publishes [where g = boot_globals and sample = "Fin (- 5)"
      and temperature = "Fin 20" and x = "- 5",
      THEN conjunct2, THEN conjunct2, THEN conjunct1, THEN mp, OF conjI [OF p b]]
  note w3 = handleBaro_publishes [where g = boot_globals and sample = "Fin (- (1 / 2 ^ 140))"
      and temperature = "Fin 20" and x = "- (1 / 2 ^ 140)",
      THEN conjunct2, THEN conjunct2, THEN conjunct2, THEN mp, OF conjI [OF p c]]
  have e: "published boot_globals = []"
    by (simp add: boot_globals_def)
  from w1 w2 w3 show ?thesis
    by (simp add: e)
qed

text \<open>
  A corrected pressure of 0 does not give NaN: from the boot state (bias 0) a reading
  of 0 gives the altitude 44330 and one publish call.
\<close>

theorem handleBaro_zero_pressure_published:
  "fsub (Fin 0) (baro_temp_bias (updateBaroTempBias (Fin 20) boot_globals)) = Fin 0 \<and>
   \<not> isnan (baro_altitude (Fin 0)) \<and>
   published (handleBaro (Fin 0) (Fin 20) boot_globals) =
     [BaroSensorSet (Fin 44330) (Fin 20) (Fin 0)]"
proof -
  have z: "baro_altitude (Fin 0) = Fin 44330"
    by (rule baro_altitude_underflow) simp
  then show ?thesis
    by (simp add: published_handleBaro isnan_def Let_def
        boot_globals_def updateBaroTempBias_def fsub_def)
qed

section \<open>Properties of the accel and gyro handlers\<close>

lemma updateGyroTempBias_settings:
  "R (updateGyroTempBias alpha t g) = R g"
  "agcal_gyro_bias (updateGyroTempBias alpha t g) = agcal_gyro_bias g"
  "agcal_gyro_scale (updateGyroTempBias alpha t g) = agcal_gyro_scale g"
  "published (updateGyroTempBias alpha t g) = published g"
  by (cases "agcal_gyro_temp_coeff g"; cases "agcal_gyro_temp_coeff2 g";
      simp add: updateGyroTempBias_def Let_def)+

lemma updateAccelTempBias_settings:
  "R (updateAccelTempBias alpha t g) = R g"
  "agcal_accel_bias (updateAccelTempBias alpha t g) = agcal_accel_bias g"
  "agcal_accel_scale (updateAccelTempBias alpha t g) = agcal_accel_scale g"
  "published (updateAccelTempBias alpha t g) = published g"
  by (cases "agcal_accel_temp_coeff g"; simp add: updateAccelTempBias_def Let_def)+

lemma handleGyro_finite:
  assumes "agcal_gyro_scale g = fin3 k" "agcal_gyro_bias g = fin3 b"
    "gyro_temp_bias (updateGyroTempBias alpha temperature g) = fin3 tb"
  shows "published (handleGyro alpha (fin3 s) temperature g) =
           published g @ [case rot_mult (R g) (fin3 (scale_then_bias s k b tb)) of
                            (x, y, z) \<Rightarrow> GyroSensorSet x y z temperature]"
proof -
  have "(case fin3 s of (s0, s1, s2) \<Rightarrow> case fin3 b of (bx, by, bz) \<Rightarrow>
         case fin3 k of (kx, ky, kz) \<Rightarrow> case fin3 tb of (t0, t1, t2) \<Rightarrow>
           (fsub (fsub (fmul s0 kx) bx) t0, fsub (fsub (fmul s1 ky) by) t1,
            fsub (fsub (fmul s2 kz) bz) t2)) = fin3 (scale_then_bias s k b tb)"
    by (simp add: fin3_def scale_then_bias_def fsub_def split: prod.splits)
  with assms show ?thesis
    by (simp add: handleGyro_def Let_def updateGyroTempBias_settings split: prod.splits)
qed

lemma handleAccel_finite:
  assumes "agcal_accel_scale g = fin3 k" "agcal_accel_bias g = fin3 b"
    "accel_temp_bias (updateAccelTempBias alpha temperature g) = fin3 tb"
  shows "published (handleAccel alpha (fin3 s) temperature g) =
           published g @ [case rot_mult (R g) (fin3 (bias_then_scale s k b tb)) of
                            (x, y, z) \<Rightarrow> AccelSensorSet x y z temperature]"
proof -
  have "(case fin3 s of (s0, s1, s2) \<Rightarrow> case fin3 b of (bx, by, bz) \<Rightarrow>
         case fin3 k of (kx, ky, kz) \<Rightarrow> case fin3 tb of (t0, t1, t2) \<Rightarrow>
           (fsub (fmul (fsub s0 bx) kx) t0, fsub (fmul (fsub s1 by) ky) t1,
            fsub (fmul (fsub s2 bz) kz) t2)) = fin3 (bias_then_scale s k b tb)"
    by (simp add: fin3_def bias_then_scale_def fsub_def split: prod.splits)
  with assms show ?thesis
    by (simp add: handleAccel_def Let_def updateAccelTempBias_settings split: prod.splits)
qed

text \<open>
  C10. With a finite scale \<open>k\<close>, constant bias \<open>b\<close> and temperature bias \<open>tb\<close> (the
  bias in force after the handler's own update), the gyro handler publishes the board
  rotation \<open>R\<close> applied to \<open>s * k - b - tb\<close> and the accel handler publishes \<open>R\<close>
  applied to \<open>(s - b) * k - tb\<close>, axis by axis, for a finite sample \<open>s\<close>; each also
  publishes the temperature it was given.
\<close>

theorem gyro_scale_before_bias:
  assumes "agcal_gyro_scale g = fin3 gk" and "agcal_gyro_bias g = fin3 gb"
    and "gyro_temp_bias (updateGyroTempBias alpha temperature g) = fin3 gtb"
    and "agcal_accel_scale g = fin3 ak" and "agcal_accel_bias g = fin3 ab"
    and "accel_temp_bias (updateAccelTempBias alpha temperature g) = fin3 atb"
  shows "published (handleGyro alpha (fin3 s) temperature g) =
           published g @ [case rot_mult (R g) (fin3 (scale_then_bias s gk gb gtb)) of
                            (x, y, z) \<Rightarrow> GyroSensorSet x y z temperature] \<and>
         published (handleAccel alpha (fin3 s) temperature g) =
           published g @ [case rot_mult (R g) (fin3 (bias_then_scale s ak ab atb)) of
                            (x, y, z) \<Rightarrow> AccelSensorSet x y z temperature]"
  using assms by (simp add: handleGyro_finite handleAccel_finite)

theorem gyro_scale_before_bias_witness:
  "published (handleGyro (Fin (1 / 2)) (Fin 3, Fin 3, Fin 3) (Fin 20)
      (calibrated_globals\<lparr>gyro_temp_calibrated := False, accel_temp_calibrated := False\<rparr>)) =
     [GyroSensorSet (Fin 5) (Fin 5) (Fin 5) (Fin 20)] \<and>
   published (handleAccel (Fin (1 / 2)) (Fin 3, Fin 3, Fin 3) (Fin 20)
      (calibrated_globals\<lparr>gyro_temp_calibrated := False, accel_temp_calibrated := False\<rparr>)) =
     [AccelSensorSet (Fin 4) (Fin 4) (Fin 4) (Fin 20)]"
  using gyro_scale_before_bias [where alpha = "Fin (1 / 2)" and temperature = "Fin 20"
      and g = "calibrated_globals\<lparr>gyro_temp_calibrated := False, accel_temp_calibrated := False\<rparr>"
      and s = "(3, 3, 3)"
      and gk = "(2, 2, 2)" and gb = "(1, 1, 1)" and gtb = "(0, 0, 0)"
      and ak = "(2, 2, 2)" and ab = "(1, 1, 1)" and atb = "(0, 0, 0)"]
  by (simp add: calibrated_globals_def boot_globals_def fin3_def rot_mult_def dot3_def
      scale_then_bias_def bias_then_scale_def updateGyroTempBias_def
      updateAccelTempBias_def Let_def)

section \<open>Properties of the sensor task\<close>

lemma reset_ids_append: "reset_ids (es @ fs) = reset_ids es @ reset_ids fs"
  by (induction es rule: reset_ids.induct) simp_all

lemma alarm_calls_append: "alarm_calls (es @ fs) = alarm_calls es @ alarm_calls fs"
  by (induction es rule: alarm_calls.induct) simp_all

lemma period_delays_append: "period_delays (es @ fs) = period_delays es + period_delays fs"
  by (induction es rule: period_delays.induct) simp_all

lemma process3d_counts_append:
  "process3d_counts (es @ fs) = process3d_counts es @ process3d_counts fs"
  by (induction es rule: process3d_counts.induct) simp_all

lemma visits_append: "visits sid (es @ fs) = visits sid es + visits sid fs"
  by (induction sid es rule: visits.induct) simp_all

lemmas trace_append =
  reset_ids_append alarm_calls_append period_delays_append process3d_counts_append visits_append

lemma ctx_count_accumulate_slots:
  "ctx_count (foldl (accumulate_slot s3) c is) = ctx_count c"
  by (induction "is" arbitrary: c) (simp_all add: accumulate_slot_def Let_def split: prod.splits)

lemma ctx_count_accumulateSamples: "ctx_count (accumulateSamples c d) = ctx_count c + 1"
  by (simp add: accumulateSamples_def Let_def ctx_count_accumulate_slots)

lemma drain_queue_fields:
  "phase (drain_queue sid p ds st) = phase st"
  "error (drain_queue sid p ds st) = error st"
  "reset_counter (drain_queue sid p ds st) = reset_counter st"
  "aux_mag_skip (drain_queue sid p ds st) = aux_mag_skip st"
  by (induction ds arbitrary: st; simp add: emit_def)+

lemma drain_queue_count:
  "ctx_count (sensor_context (drain_queue sid p ds st)) =
     ctx_count (sensor_context st) + of_nat (length ds)"
  by (induction ds arbitrary: st) (simp_all add: emit_def ctx_count_accumulateSamples)

lemma drain_queue_trace:
  "reset_ids (trace (drain_queue sid p ds st)) = reset_ids (trace st)"
  "alarm_calls (trace (drain_queue sid p ds st)) = alarm_calls (trace st)"
  "period_delays (trace (drain_queue sid p ds st)) = period_delays (trace st)"
  "process3d_counts (trace (drain_queue sid p ds st)) = process3d_counts (trace st)"
  "visits sid' (trace (drain_queue sid p ds st)) =
     visits sid' (trace st) + (if sid = sid' then 1 else 0)"
  by (induction ds arbitrary: st; simp add: emit_def trace_append)+

lemma type_3d_or_baro: "has_3d_bit ty \<or> ty = PIOS_SENSORS_TYPE_1AXIS_BARO"
  by (cases ty) simp_all

lemma accel_not_auxmag: "has_accel_bit ty \<Longrightarrow> ty \<noteq> PIOS_SENSORS_TYPE_3AXIS_AUXMAG"
  by (cases ty) simp_all

text \<open>Whether the loop body serves an instance in a cycle with the given counter.\<close>

lemma sensor_step_phase:
  "phase (sensor_step cfg feed st sensor) = phase st"
  using type_3d_or_baro [of "sensor_type sensor"]
  by (auto simp: sensor_step_def Let_def emit_def call_clearContext_def call_processSamples3d_def
      processSamples1d_def drain_queue_fields split: option.splits)

lemma sensor_step_aux_mag_skip:
  "aux_mag_skip (sensor_step cfg feed st sensor) = aux_mag_skip st"
  by (auto simp: sensor_step_def Let_def emit_def call_clearContext_def call_processSamples3d_def
      drain_queue_fields split: option.splits)

lemma sensor_step_count:
  "ctx_count (sensor_context st) = 0 \<Longrightarrow>
     ctx_count (sensor_context (sensor_step cfg feed st sensor)) = 0"
  by (auto simp: sensor_step_def Let_def emit_def call_clearContext_def call_processSamples3d_def
      clearContext_def split: option.splits)

lemma sensor_step_alarms:
  "alarm_calls (trace (sensor_step cfg feed st sensor)) = alarm_calls (trace st)"
  "period_delays (trace (sensor_step cfg feed st sensor)) = period_delays (trace st)"
  by (auto simp: sensor_step_def Let_def emit_def call_clearContext_def call_processSamples3d_def
      drain_queue_trace trace_append split: option.splits)

lemma sensor_step_process3d:
  assumes "ctx_count (sensor_context st) = 0" "\<forall>n \<in> set (process3d_counts (trace st)). n \<noteq> 0"
  shows "\<forall>n \<in> set (process3d_counts (trace (sensor_step cfg feed st sensor))). n \<noteq> 0"
  using assms
  by (auto simp: sensor_step_def Let_def emit_def call_clearContext_def call_processSamples3d_def
      drain_queue_trace trace_append ctx_count_accumulateSamples split: option.splits)

lemma sensor_step_resets:
  assumes "phase st = Running" "ctx_count (sensor_context st) = 0"
  shows "reset_ids (trace (sensor_step cfg feed st sensor)) =
           reset_ids (trace st) @ (if stalls feed sensor then [sensor_id sensor] else [])"
    and "reset_counter (sensor_step cfg feed st sensor) =
           reset_counter st + (if stalls feed sensor then 1 else 0)"
    and "error (sensor_step cfg feed st sensor) = (error st \<or> stalls feed sensor)"
  using assms accel_not_auxmag [of "sensor_type sensor"]
  by (auto simp: sensor_step_def Let_def emit_def call_clearContext_def call_processSamples3d_def
      drain_queue_trace drain_queue_fields drain_queue_count trace_append stalls_def
      split: option.splits)

lemma sensor_step_visits:
  assumes "phase st = Running"
  shows "visits sid (trace (sensor_step cfg feed st sensor)) =
           visits sid (trace st) +
           (if sensor_id sensor = sid \<and> served (aux_mag_skip st) sensor then 1 else 0)"
  using assms
  by (auto simp: sensor_step_def Let_def emit_def call_clearContext_def call_processSamples3d_def
      drain_queue_trace trace_append served_def split: option.splits)

text \<open>The loop over the sensor list.\<close>

lemma sensors_loop_fields:
  "phase (foldl (sensor_step cfg feed) st ss) = phase st"
  "aux_mag_skip (foldl (sensor_step cfg feed) st ss) = aux_mag_skip st"
  "alarm_calls (trace (foldl (sensor_step cfg feed) st ss)) = alarm_calls (trace st)"
  "period_delays (trace (foldl (sensor_step cfg feed) st ss)) = period_delays (trace st)"
  by (induction ss arbitrary: st;
      simp add: sensor_step_phase sensor_step_aux_mag_skip sensor_step_alarms)+

lemma sensors_loop_count:
  "ctx_count (sensor_context st) = 0 \<Longrightarrow>
     ctx_count (sensor_context (foldl (sensor_step cfg feed) st ss)) = 0"
  by (induction ss arbitrary: st) (simp_all add: sensor_step_count)

lemma sensors_loop_process3d:
  "ctx_count (sensor_context st) = 0 \<Longrightarrow> \<forall>n \<in> set (process3d_counts (trace st)). n \<noteq> 0 \<Longrightarrow>
     \<forall>n \<in> set (process3d_counts (trace (foldl (sensor_step cfg feed) st ss))). n \<noteq> 0"
proof (induction ss arbitrary: st)
  case Nil
  then show ?case by simp
next
  case (Cons s ss)
  have a: "ctx_count (sensor_context (sensor_step cfg feed st s)) = 0"
    using Cons.prems(1) by (rule sensor_step_count)
  have b: "\<forall>n \<in> set (process3d_counts (trace (sensor_step cfg feed st s))). n \<noteq> 0"
    using Cons.prems by (rule sensor_step_process3d)
  have "foldl (sensor_step cfg feed) st (s # ss) =
          foldl (sensor_step cfg feed) (sensor_step cfg feed st s) ss"
    by simp
  then show ?case
    using Cons.IH [OF a b] by (simp only:)
qed

lemma sensors_loop_resets:
  "phase st = Running \<Longrightarrow> ctx_count (sensor_context st) = 0 \<Longrightarrow>
     reset_ids (trace (foldl (sensor_step cfg feed) st ss)) =
       reset_ids (trace st) @ map sensor_id (filter (stalls feed) ss) \<and>
     reset_counter (foldl (sensor_step cfg feed) st ss) =
       reset_counter st + of_nat (length (filter (stalls feed) ss)) \<and>
     error (foldl (sensor_step cfg feed) st ss) = (error st \<or> (\<exists>s \<in> set ss. stalls feed s))"
proof (induction ss arbitrary: st)
  case Nil
  then show ?case by simp
next
  case (Cons s ss)
  let ?st = "sensor_step cfg feed st s"
  have "phase ?st = Running" "ctx_count (sensor_context ?st) = 0"
    using Cons.prems by (simp_all add: sensor_step_phase sensor_step_count)
  from Cons.IH [OF this] show ?case
    using Cons.prems by (auto simp: sensor_step_resets)
qed

lemma sensors_loop_visits:
  "phase st = Running \<Longrightarrow>
     visits sid (trace (foldl (sensor_step cfg feed) st ss)) =
       visits sid (trace st) +
       length (filter (\<lambda>s. sensor_id s = sid \<and> served (aux_mag_skip st) s) ss)"
proof (induction ss arbitrary: st)
  case Nil
  then show ?case by simp
next
  case (Cons s ss)
  let ?st = "sensor_step cfg feed st s"
  have "phase ?st = Running"
    using Cons.prems by (simp add: sensor_step_phase)
  from Cons.IH [OF this] show ?case
    using Cons.prems by (simp add: sensor_step_visits sensor_step_aux_mag_skip)
qed

lemma filter_distinct_id:
  "distinct (map sensor_id ss) \<Longrightarrow> a \<in> set ss \<Longrightarrow>
     length (filter (\<lambda>s. sensor_id s = sensor_id a \<and> P s) ss) = (if P a then 1 else 0)"
proof (induction ss)
  case Nil
  then show ?case by simp
next
  case (Cons s ss)
  show ?case
  proof (cases "s = a")
    case True
    with Cons.prems have "sensor_id a \<notin> sensor_id ` set ss"
      by simp
    then have "\<forall>t \<in> set ss. sensor_id t \<noteq> sensor_id a"
      by (metis imageI)
    then have "filter (\<lambda>s. sensor_id s = sensor_id a \<and> P s) ss = []"
      by (simp add: filter_empty_conv)
    with True show ?thesis by simp
  next
    case False
    with Cons.prems have "a \<in> set ss" "sensor_id s \<noteq> sensor_id a"
      by auto
    with Cons show ?thesis by simp
  qed
qed

text \<open>One pass of the main loop.\<close>

lemma cycle_begin_fields:
  "phase (cycle_begin st) = phase st"
  "aux_mag_skip (cycle_begin st) = aux_mag_skip st"
  "reset_counter (cycle_begin st) = reset_counter st"
  "error (cycle_begin st) = False"
  "reset_ids (trace (cycle_begin st)) = reset_ids (trace st)"
  "process3d_counts (trace (cycle_begin st)) = process3d_counts (trace st)"
  "visits sid (trace (cycle_begin st)) = visits sid (trace st)"
  by (simp_all add: cycle_begin_def emit_def trace_append)

lemma cycle_begin_alarm:
  "alarm_calls (trace (cycle_begin st)) =
     alarm_calls (trace st) @
       (if error st then [AlarmsSet SYSTEMALARMS_ALARM_CRITICAL] else [AlarmsClear])"
  "period_delays (trace (cycle_begin st)) = period_delays (trace st) + (if error st then 1 else 0)"
  by (simp_all add: cycle_begin_def emit_def trace_append)

lemma cycle_phase: "phase (cycle cfg ss feed st) = phase st"
  by (simp add: cycle_def Let_def emit_def sensors_loop_fields call_clearContext_def
      cycle_begin_fields)

lemma cycle_aux_mag_skip:
  "aux_mag_skip (cycle cfg ss feed st) = next_aux_mag_skip cfg (aux_mag_skip st)"
  by (simp add: cycle_def Let_def emit_def sensors_loop_fields call_clearContext_def
      cycle_begin_fields)

lemma cycle_alarms:
  assumes "phase st = Running"
  shows "alarm_calls (trace (cycle cfg ss feed st)) =
           alarm_calls (trace st) @
             (if error st then [AlarmsSet SYSTEMALARMS_ALARM_CRITICAL] else [AlarmsClear])"
    and "period_delays (trace (cycle cfg ss feed st)) =
           period_delays (trace st) + (if error st then 2 else 1)"
  using assms
  by (simp_all add: cycle_def Let_def emit_def sensors_loop_fields call_clearContext_def
      cycle_begin_fields cycle_begin_alarm trace_append)

lemma cycle_resets:
  assumes "phase st = Running"
  shows "reset_ids (trace (cycle cfg ss feed st)) =
           reset_ids (trace st) @ map sensor_id (filter (stalls feed) ss)"
    and "reset_counter (cycle cfg ss feed st) =
           reset_counter st + of_nat (length (filter (stalls feed) ss))"
    and "error (cycle cfg ss feed st) = (\<exists>s \<in> set ss. stalls feed s)"
proof -
  let ?st2 = "(call_clearContext (cycle_begin st))
                \<lparr>aux_mag_skip := next_aux_mag_skip cfg (aux_mag_skip (cycle_begin st))\<rparr>"
  have "phase ?st2 = Running" "ctx_count (sensor_context ?st2) = 0"
    using assms by (simp_all add: call_clearContext_def clearContext_def cycle_begin_fields)
  note loop = sensors_loop_resets [OF this, of cfg feed ss]
  have st2: "reset_ids (trace ?st2) = reset_ids (trace st)"
    "reset_counter ?st2 = reset_counter st" "error ?st2 = False"
    by (simp_all add: call_clearContext_def cycle_begin_fields)
  show "reset_ids (trace (cycle cfg ss feed st)) =
           reset_ids (trace st) @ map sensor_id (filter (stalls feed) ss)"
    using loop st2 by (simp add: cycle_def Let_def emit_def trace_append)
  show "reset_counter (cycle cfg ss feed st) =
           reset_counter st + of_nat (length (filter (stalls feed) ss))"
    using loop st2 by (simp add: cycle_def Let_def emit_def)
  show "error (cycle cfg ss feed st) = (\<exists>s \<in> set ss. stalls feed s)"
    using loop st2 by (simp add: cycle_def Let_def emit_def)
qed

lemma cycle_process3d:
  assumes "\<forall>n \<in> set (process3d_counts (trace st)). n \<noteq> 0"
  shows "\<forall>n \<in> set (process3d_counts (trace (cycle cfg ss feed st))). n \<noteq> 0"
proof -
  let ?st2 = "(call_clearContext (cycle_begin st))
                \<lparr>aux_mag_skip := next_aux_mag_skip cfg (aux_mag_skip (cycle_begin st))\<rparr>"
  have "ctx_count (sensor_context ?st2) = 0"
    by (simp add: call_clearContext_def clearContext_def)
  moreover have "process3d_counts (trace ?st2) = process3d_counts (trace st)"
    by (simp add: call_clearContext_def cycle_begin_fields)
  with assms have "\<forall>n \<in> set (process3d_counts (trace ?st2)). n \<noteq> 0"
    by (simp only:)
  ultimately have loop:
    "\<forall>n \<in> set (process3d_counts (trace (foldl (sensor_step cfg feed) ?st2 ss))). n \<noteq> 0"
    by (rule sensors_loop_process3d)
  have "process3d_counts (trace (cycle cfg ss feed st)) =
          process3d_counts (trace (foldl (sensor_step cfg feed) ?st2 ss))"
    by (simp add: cycle_def Let_def emit_def trace_append)
  with loop show ?thesis
    by (simp only:)
qed

lemma cycle_visits:
  assumes "phase st = Running" "distinct (map sensor_id ss)" "a \<in> set ss"
  shows "visits (sensor_id a) (trace (cycle cfg ss feed st)) =
           visits (sensor_id a) (trace st) +
           (if served (next_aux_mag_skip cfg (aux_mag_skip st)) a then 1 else 0)"
proof -
  let ?st2 = "(call_clearContext (cycle_begin st))
                \<lparr>aux_mag_skip := next_aux_mag_skip cfg (aux_mag_skip (cycle_begin st))\<rparr>"
  have "phase ?st2 = Running"
    using assms(1) by (simp add: call_clearContext_def cycle_begin_fields)
  from sensors_loop_visits [OF this, of "sensor_id a" cfg feed ss]
  show ?thesis
    using assms(1) filter_distinct_id [OF assms(2,3)]
    by (simp add: cycle_def Let_def emit_def trace_append sensors_loop_fields
        call_clearContext_def cycle_begin_fields)
qed

text \<open>The task as a whole.\<close>

lemma task_step_phase: "phase (task_step cfg ss feed st) = phase st"
  by (cases "phase st") (simp_all add: task_step_def cycle_phase emit_def)

lemma task_run_phase: "phase (task_run cfg ss feeds k st) = phase st"
  by (induction k) (simp_all add: task_step_phase)

lemma task_run_running:
  "phase st = Running \<Longrightarrow>
     task_run cfg ss feeds (Suc k) st = cycle cfg ss (feeds k) (task_run cfg ss feeds k st)"
  by (simp add: task_step_def task_run_phase)

lemma test_loop:
  "foldl (test_step test) (ok, c, tr) ss =
     (ok \<and> (\<forall>s \<in> set ss. test (sensor_id s)), c + of_nat (length ss),
      tr @ concat (map (\<lambda>s. [RELOAD_WDG, SensorsTest (sensor_id s) (test (sensor_id s))]) ss))"
  by (induction ss arbitrary: ok c tr) (auto simp: test_step_def)

lemma test_events_silent:
  "alarm_calls (concat (map (\<lambda>s. [RELOAD_WDG, SensorsTest (sensor_id s) (test (sensor_id s))]) ss)) = []"
  "process3d_counts (concat (map (\<lambda>s. [RELOAD_WDG, SensorsTest (sensor_id s) (test (sensor_id s))]) ss)) = []"
  "reset_ids (concat (map (\<lambda>s. [RELOAD_WDG, SensorsTest (sensor_id s) (test (sensor_id s))]) ss)) = []"
  "visits sid (concat (map (\<lambda>s. [RELOAD_WDG, SensorsTest (sensor_id s) (test (sensor_id s))]) ss)) = 0"
  by (induction ss; simp)+

lemma start_process3d: "process3d_counts (trace (SensorsTask_start test ss g)) = []"
  by (simp add: SensorsTask_start_def Let_def test_loop trace_append test_events_silent)

lemma task_step_process3d:
  assumes "\<forall>n \<in> set (process3d_counts (trace st)). n \<noteq> 0"
  shows "\<forall>n \<in> set (process3d_counts (trace (task_step cfg ss feed st))). n \<noteq> 0"
proof (cases "phase st")
  case Running
  then have "task_step cfg ss feed st = cycle cfg ss feed st"
    by (simp add: task_step_def)
  with cycle_process3d [OF assms, of cfg ss feed] show ?thesis
    by (simp only:)
next
  case CriticalFault
  then have "process3d_counts (trace (task_step cfg ss feed st)) = process3d_counts (trace st)"
    by (simp add: task_step_def emit_def trace_append)
  with assms show ?thesis
    by (simp only:)
next
  case AssertFailed
  then have "task_step cfg ss feed st = st"
    by (simp add: task_step_def)
  with assms show ?thesis
    by (simp only:)
qed

lemma task_run_process3d:
  "\<forall>n \<in> set (process3d_counts (trace (task_run cfg ss feeds k (SensorsTask_start test ss g)))). n \<noteq> 0"
proof (induction k)
  case 0
  show ?case
    by (simp add: start_process3d)
next
  case (Suc k)
  from task_step_process3d [OF Suc, of cfg ss "feeds k"] show ?case
    by simp
qed

lemma process3d_counts_mem: "ProcessSamples3d sid n \<in> set es \<Longrightarrow> n \<in> set (process3d_counts es)"
  by (induction es rule: process3d_counts.induct) auto

text \<open>
  C4. In every run of the task, from its start through any number of passes of the
  main loop and whatever the drivers deliver, each call of \<open>processSamples3d\<close> is made
  with a context whose sample count is not zero.
\<close>

theorem processSamples3d_count_nonzero:
  assumes "ProcessSamples3d sid n \<in> set (trace (task_run cfg ss feeds k (SensorsTask_start test ss g)))"
  shows "n \<noteq> 0"
  using task_run_process3d [of cfg ss feeds k test g] process3d_counts_mem [OF assms]
  by blast

lemma start_running:
  "phase (SensorsTask_start tests_pass [accel_sensor] boot_globals) = Running"
  by (simp add: SensorsTask_start_def Let_def test_step_def tests_pass_def)

theorem processSamples3d_count_nonzero_witness:
  "ProcessSamples3d 0 1 \<in> set (trace (task_run cfg_500 [accel_sensor] always_feed_one 1
      (SensorsTask_start tests_pass [accel_sensor] boot_globals))) \<and> (1 :: 32 word) \<noteq> 0"
proof -
  have "ProcessSamples3d 0 1 \<in> set (trace (task_run cfg_500 [accel_sensor] always_feed_one 1
      (SensorsTask_start tests_pass [accel_sensor] boot_globals)))"
    by (simp add: task_step_def SensorsTask_start_def test_step_def tests_pass_def
        always_feed_one_def cycle_def cycle_begin_def
        Let_def emit_def sensor_step_def call_clearContext_def call_processSamples3d_def
        clearContext_def accel_sensor_def feed_one_def ctx_count_accumulateSamples)
  from this processSamples3d_count_nonzero [OF this] show ?thesis
    by simp
qed

lemma filter_single:
  "distinct ss \<Longrightarrow> s \<in> set ss \<Longrightarrow> P s \<Longrightarrow> \<forall>t \<in> set ss. t \<noteq> s \<longrightarrow> \<not> P t \<Longrightarrow>
     filter P ss = [s]"
proof (induction ss)
  case Nil
  then show ?case by simp
next
  case (Cons a ss)
  show ?case
  proof (cases "a = s")
    case True
    with Cons.prems have "\<forall>t \<in> set ss. \<not> P t"
      by auto
    then have "filter P ss = []"
      by (simp add: filter_empty_conv)
    with True Cons.prems(3) show ?thesis by simp
  next
    case False
    with Cons show ?thesis by auto
  qed
qed

lemma filter_none: "\<forall>t \<in> set ss. \<not> P t \<Longrightarrow> filter P ss = []"
  by (simp add: filter_empty_conv)

text \<open>
  C1, as the code has it. Take a running task, a list of distinct instances, and a
  cycle in which the queue of a primary queue-fed instance \<open>s\<close> delivers nothing while
  no other instance stalls. In that cycle the task requests one driver reset, that of
  \<open>s\<close>, adds one to the reset counter and leaves the error flag set. The next cycle
  starts by reloading the watchdog, waiting one extra period and raising the sensors
  alarm at the critical level, and clears the error flag; when no instance stalls in
  it, it makes this one alarm call, waits two periods in all and requests no reset.
  The cycle after that, again without a stall, clears the alarm and waits one period.
\<close>

theorem stall_recovery:
  assumes "phase st = Running" and "distinct ss" and "s \<in> set ss"
    and "has_accel_bit (sensor_type s)" and "\<not> is_polled s"
    and "queued (feed1 (sensor_id s)) = []"
    and "\<forall>t \<in> set ss. t \<noteq> s \<longrightarrow> \<not> stalls feed1 t"
    and "\<forall>t \<in> set ss. \<not> stalls feed2 t" and "\<forall>t \<in> set ss. \<not> stalls feed3 t"
    and "st1 = cycle cfg ss feed1 st" and "st2 = cycle cfg ss feed2 st1"
    and "st3 = cycle cfg ss feed3 st2"
  shows "reset_ids (trace st1) = reset_ids (trace st) @ [sensor_id s] \<and>
         reset_counter st1 = reset_counter st + 1 \<and>
         error st1 \<and>
         trace (cycle_begin st1) =
           trace st1 @ [RELOAD_WDG, GetTickCount, DelayUntilPeriod,
                        AlarmsSet SYSTEMALARMS_ALARM_CRITICAL] \<and>
         \<not> error (cycle_begin st1) \<and>
         alarm_calls (trace st2) =
           alarm_calls (trace st1) @ [AlarmsSet SYSTEMALARMS_ALARM_CRITICAL] \<and>
         period_delays (trace st2) = period_delays (trace st1) + 2 \<and>
         reset_ids (trace st2) = reset_ids (trace st1) \<and>
         reset_counter st2 = reset_counter st1 \<and>
         \<not> error st2 \<and>
         alarm_calls (trace st3) = alarm_calls (trace st2) @ [AlarmsClear] \<and>
         period_delays (trace st3) = period_delays (trace st2) + 1 \<and>
         reset_ids (trace st3) = reset_ids (trace st2) \<and>
         \<not> error st3"
proof -
  have stall: "stalls feed1 s"
    using assms(4-6) by (simp add: stalls_def)
  with assms(2,3,7) have f1: "filter (stalls feed1) ss = [s]"
    by (intro filter_single) auto
  have f2: "filter (stalls feed2) ss = []" and f3: "filter (stalls feed3) ss = []"
    using assms(8,9) by (simp_all add: filter_none)
  have r1: "phase st1 = Running" and r2: "phase st2 = Running"
    using assms(1,10,11) by (simp_all add: cycle_phase)
  have e1: "error st1"
    using cycle_resets(3) [OF assms(1), of cfg ss feed1] stall assms(3,10) by auto
  have e2: "\<not> error st2"
    using cycle_resets(3) [OF r1, of cfg ss feed2] assms(8,11) by auto
  have e3: "\<not> error st3"
    using cycle_resets(3) [OF r2, of cfg ss feed3] assms(9,12) by auto
  show ?thesis
    using e1 e2 e3 f1 f2 f3 assms(10-12)
      cycle_resets(1,2) [OF assms(1), of cfg ss feed1]
      cycle_resets(1,2) [OF r1, of cfg ss feed2]
      cycle_resets(1) [OF r2, of cfg ss feed3]
      cycle_alarms [OF r1, of cfg ss feed2] cycle_alarms [OF r2, of cfg ss feed3]
    by (simp add: cycle_begin_def emit_def)
qed

lemma example_no_stall: "\<not> stalls feed_one accel_sensor"
  by (simp add: stalls_def feed_one_def)

theorem stall_recovery_witness:
  "reset_ids (trace (cycle cfg_500 [accel_sensor] feed_none
      (SensorsTask_start tests_pass [accel_sensor] boot_globals))) = [0] \<and>
   reset_counter (cycle cfg_500 [accel_sensor] feed_none
      (SensorsTask_start tests_pass [accel_sensor] boot_globals)) = 1 \<and>
   error (cycle cfg_500 [accel_sensor] feed_none
      (SensorsTask_start tests_pass [accel_sensor] boot_globals)) \<and>
   \<not> error (cycle cfg_500 [accel_sensor] feed_one (cycle cfg_500 [accel_sensor] feed_none
      (SensorsTask_start tests_pass [accel_sensor] boot_globals))) \<and>
   alarm_calls (trace (cycle cfg_500 [accel_sensor] feed_one (cycle cfg_500 [accel_sensor] feed_one
      (cycle cfg_500 [accel_sensor] feed_none
        (SensorsTask_start tests_pass [accel_sensor] boot_globals))))) =
     [AlarmsClear, AlarmsClear, AlarmsSet SYSTEMALARMS_ALARM_CRITICAL, AlarmsClear]"
proof -
  let ?st = "SensorsTask_start tests_pass [accel_sensor] boot_globals"
  have tr: "reset_ids (trace ?st) = []" "alarm_calls (trace ?st) = [AlarmsClear]"
    "reset_counter ?st = 0"
    by (simp_all add: SensorsTask_start_def Let_def test_step_def tests_pass_def)
  have al: "alarm_calls (trace (cycle cfg_500 [accel_sensor] feed_none ?st)) =
      [AlarmsClear, AlarmsClear]"
    using cycle_alarms(1) [OF start_running, of cfg_500 "[accel_sensor]" feed_none] tr
    by (simp add: SensorsTask_start_def Let_def test_step_def tests_pass_def)
  from stall_recovery [OF start_running, where ss = "[accel_sensor]" and s = accel_sensor
      and ?feed1.0 = feed_none and ?feed2.0 = feed_one and ?feed3.0 = feed_one
      and cfg = cfg_500, OF _ _ _ _ _ _ _ _ refl refl refl]
  show ?thesis
    using tr al example_no_stall
    by (simp add: accel_sensor_def feed_none_def)
qed

text \<open>
  The alarm after a stall is not a warning: in a run with one primary instance whose
  queue is empty in the first cycle, the alarm calls of the start and of the first two
  cycles are a clear, a clear and a set at the critical level.
\<close>

theorem stall_alarm_is_critical:
  "alarm_calls (trace (task_run cfg_500 [accel_sensor] stall_then_recover 2
      (SensorsTask_start tests_pass [accel_sensor] boot_globals))) =
     [AlarmsClear, AlarmsClear, AlarmsSet SYSTEMALARMS_ALARM_CRITICAL] \<and>
   AlarmsSet SYSTEMALARMS_ALARM_WARNING \<notin>
     set (alarm_calls (trace (task_run cfg_500 [accel_sensor] stall_then_recover 2
      (SensorsTask_start tests_pass [accel_sensor] boot_globals))))"
proof -
  let ?st = "SensorsTask_start tests_pass [accel_sensor] boot_globals"
  let ?st1 = "cycle cfg_500 [accel_sensor] feed_none ?st"
  have run: "task_run cfg_500 [accel_sensor] stall_then_recover 2 ?st =
      cycle cfg_500 [accel_sensor] feed_one ?st1"
    by (simp add: numeral_2_eq_2 task_step_def start_running cycle_phase stall_then_recover_def)
  have a0: "alarm_calls (trace ?st) = [AlarmsClear]" "\<not> error ?st"
    by (simp_all add: SensorsTask_start_def Let_def test_step_def tests_pass_def)
  have r1: "phase ?st1 = Running"
    by (simp add: cycle_phase start_running)
  have "stalls feed_none accel_sensor"
    by (simp add: stalls_def feed_none_def accel_sensor_def)
  then have e1: "error ?st1"
    using cycle_resets(3) [OF start_running, of cfg_500 "[accel_sensor]" feed_none] by simp
  have "alarm_calls (trace (cycle cfg_500 [accel_sensor] feed_one ?st1)) =
      [AlarmsClear, AlarmsClear, AlarmsSet SYSTEMALARMS_ALARM_CRITICAL]"
    using cycle_alarms(1) [OF start_running, of cfg_500 "[accel_sensor]" feed_none]
      cycle_alarms(1) [OF r1, of cfg_500 "[accel_sensor]" feed_one] a0 e1
    by simp
  with run show ?thesis
    by simp
qed

text \<open>The self-test at the start of the task.\<close>

lemma start_phase:
  "phase (SensorsTask_start test ss g) =
     (if (of_nat (length ss) :: 8 word) = 0 then AssertFailed
      else if \<not> (\<forall>s \<in> set ss. test (sensor_id s)) then CriticalFault else Running)"
  by (simp add: SensorsTask_start_def Let_def test_loop)

lemma start_alarms:
  "alarm_calls (trace (SensorsTask_start test ss g)) =
     AlarmsClear #
       (if (of_nat (length ss) :: 8 word) \<noteq> 0 \<and> \<not> (\<forall>s \<in> set ss. test (sensor_id s))
        then [AlarmsSet SYSTEMALARMS_ALARM_CRITICAL] else [])"
  by (simp add: SensorsTask_start_def Let_def test_loop trace_append test_events_silent)

lemma fault_loop_alarms:
  "phase st = CriticalFault \<Longrightarrow>
     alarm_calls (trace (task_run cfg ss feeds k st)) = alarm_calls (trace st)"
proof (induction k)
  case 0
  show ?case by simp
next
  case (Suc k)
  then have "phase (task_run cfg ss feeds k st) = CriticalFault"
    by (simp add: task_run_phase)
  with Suc show ?case
    by (simp add: task_step_def emit_def trace_append)
qed

lemma assert_failed_stops:
  "phase st = AssertFailed \<Longrightarrow> task_run cfg ss feeds k st = st"
  by (induction k) (simp_all add: task_step_def)

text \<open>
  C8. The main loop is never entered when an instance fails its self-test, and it is
  entered only when every instance passes. When an instance fails and the task gets
  past its start-up assertion on the 8-bit count of instances (as it does for 1 to 255
  instances), the task sits in its fault loop for ever and its alarm calls are the
  initial clear followed by one set at the critical level. When the assertion holds
  and every instance passes, the main loop is entered.
\<close>

theorem self_test_gate:
  "((\<exists>s \<in> set ss. \<not> test (sensor_id s)) \<longrightarrow>
      phase (task_run cfg ss feeds k (SensorsTask_start test ss g)) \<noteq> Running) \<and>
   (phase (task_run cfg ss feeds k (SensorsTask_start test ss g)) = Running \<longrightarrow>
      (\<forall>s \<in> set ss. test (sensor_id s))) \<and>
   ((\<exists>s \<in> set ss. \<not> test (sensor_id s)) \<and> (of_nat (length ss) :: 8 word) \<noteq> 0 \<longrightarrow>
      phase (task_run cfg ss feeds k (SensorsTask_start test ss g)) = CriticalFault \<and>
      alarm_calls (trace (task_run cfg ss feeds k (SensorsTask_start test ss g))) =
        [AlarmsClear, AlarmsSet SYSTEMALARMS_ALARM_CRITICAL]) \<and>
   ((\<forall>s \<in> set ss. test (sensor_id s)) \<and> (of_nat (length ss) :: 8 word) \<noteq> 0 \<longrightarrow>
      phase (task_run cfg ss feeds k (SensorsTask_start test ss g)) = Running)"
proof -
  have "alarm_calls (trace (task_run cfg ss feeds k (SensorsTask_start test ss g))) =
        [AlarmsClear, AlarmsSet SYSTEMALARMS_ALARM_CRITICAL]"
    if "\<exists>s \<in> set ss. \<not> test (sensor_id s)" "(of_nat (length ss) :: 8 word) \<noteq> 0"
  proof -
    from that have "phase (SensorsTask_start test ss g) = CriticalFault"
      by (simp add: start_phase)
    from fault_loop_alarms [OF this] that show ?thesis
      by (simp add: start_alarms)
  qed
  then show ?thesis
    by (auto simp: task_run_phase start_phase)
qed

theorem self_test_gate_witness:
  "phase (task_run cfg_500 [accel_sensor, auxmag_sensor] always_feed_one 3
      (SensorsTask_start first_fails [accel_sensor, auxmag_sensor] boot_globals)) = CriticalFault \<and>
   alarm_calls (trace (task_run cfg_500 [accel_sensor, auxmag_sensor] always_feed_one 3
      (SensorsTask_start first_fails [accel_sensor, auxmag_sensor] boot_globals))) =
     [AlarmsClear, AlarmsSet SYSTEMALARMS_ALARM_CRITICAL] \<and>
   phase (task_run cfg_500 [accel_sensor, auxmag_sensor] always_feed_one 3
      (SensorsTask_start tests_pass [accel_sensor, auxmag_sensor] boot_globals)) = Running"
  using self_test_gate [where ss = "[accel_sensor, auxmag_sensor]" and test = first_fails
      and cfg = cfg_500 and feeds = always_feed_one and k = 3 and g = boot_globals]
    self_test_gate [where ss = "[accel_sensor, auxmag_sensor]" and test = tests_pass
      and cfg = cfg_500 and feeds = always_feed_one and k = 3 and g = boot_globals]
  by (simp add: first_fails_def tests_pass_def accel_sensor_def auxmag_sensor_def)


text \<open>The decimation of the auxiliary magnetometer.\<close>

lemma AUX_MAG_SKIP_max: "AUX_MAG_SKIP cfg = (int (max (PIOS_SENSOR_RATE cfg) 76) + 74) div 75"
  by (simp add: AUX_MAG_SKIP_def max_def)

lemma AUX_MAG_SKIP_ge_2: "2 \<le> AUX_MAG_SKIP cfg"
proof -
  have "76 \<le> int (max (PIOS_SENSOR_RATE cfg) 76)"
    by simp
  then have "2 \<le> (int (max (PIOS_SENSOR_RATE cfg) 76) + 74) div 75"
    by linarith
  then show ?thesis
    by (simp only: AUX_MAG_SKIP_max)
qed

lemma AUX_MAG_SKIP_le_256: "PIOS_SENSOR_RATE cfg \<le> 19200 \<Longrightarrow> AUX_MAG_SKIP cfg \<le> 256"
proof -
  assume "PIOS_SENSOR_RATE cfg \<le> 19200"
  then have "int (max (PIOS_SENSOR_RATE cfg) 76) \<le> 19200"
    by simp
  then have "(int (max (PIOS_SENSOR_RATE cfg) 76) + 74) div 75 \<le> 256"
    by linarith
  then show ?thesis
    by (simp only: AUX_MAG_SKIP_max)
qed

lemma neg_div_75: "- (- (m::int) div 75) = (m + 74) div 75"
  by linarith

lemma ceiling_div_75: "\<lceil>real n / 75\<rceil> = (int n + 74) div 75"
proof -
  have "real n / 75 = real_of_int (int n) / real_of_int 75"
    by simp
  then have "\<lceil>real n / 75\<rceil> = - (- int n div 75)"
    by (simp only: ceiling_divide_eq_div)
  then show ?thesis
    by (simp only: neg_div_75)
qed

lemma AUX_MAG_SKIP_ceiling:
  "AUX_MAG_SKIP cfg = \<lceil>real (max (PIOS_SENSOR_RATE cfg) 76) / 75\<rceil>"
  by (simp only: AUX_MAG_SKIP_max ceiling_div_75)

lemma aux_mag_period_bounds: "0 < aux_mag_period cfg" "aux_mag_period cfg \<le> 256"
  using AUX_MAG_SKIP_ge_2 [of cfg] by (auto simp: aux_mag_period_def)

lemma word8_of_nat_eq_0: "m < 256 \<Longrightarrow> (of_nat m :: 8 word) = 0 \<longleftrightarrow> m = 0"
  by (auto simp: word_of_nat_eq_0_iff dest: dvd_imp_le)

lemma next_aux_mag_skip_mod:
  "next_aux_mag_skip cfg (of_nat (k mod aux_mag_period cfg)) =
     of_nat (Suc k mod aux_mag_period cfg)"
proof (cases "AUX_MAG_SKIP cfg \<le> 256")
  case True
  let ?N = "nat (AUX_MAG_SKIP cfg)"
  from True AUX_MAG_SKIP_ge_2 [of cfg] have N: "aux_mag_period cfg = ?N" "0 < ?N" "?N \<le> 256"
    "AUX_MAG_SKIP cfg = int ?N"
    by (simp_all add: aux_mag_period_def)
  have lt: "k mod ?N < 256"
    using N(2,3) by (meson less_le_trans mod_less_divisor)
  then have "uint (of_nat (k mod ?N) :: 8 word) = int (k mod ?N)"
    by (simp add: uint_nat unat_of_nat)
  then have "next_aux_mag_skip cfg (of_nat (k mod ?N)) =
      word_of_int ((int (k mod ?N) + 1) mod int ?N)"
    using N(4) by (simp add: next_aux_mag_skip_def)
  also have "(int (k mod ?N) + 1) mod int ?N = int (Suc k mod ?N)"
  proof -
    have "int (Suc k mod ?N) = int (Suc (k mod ?N) mod ?N)"
      by (simp only: mod_Suc_eq)
    also have "\<dots> = int (Suc (k mod ?N)) mod int ?N"
      by (rule zmod_int)
    also have "int (Suc (k mod ?N)) = int (k mod ?N) + 1"
      by (simp only: of_nat_Suc add.commute)
    finally show ?thesis
      by (rule sym)
  qed
  finally show ?thesis
    using N(1) by (simp only: of_int_of_nat_eq)
next
  case False
  then have P: "aux_mag_period cfg = 256" and big: "256 < AUX_MAG_SKIP cfg"
    by (simp_all add: aux_mag_period_def)
  have lt: "k mod 256 < 256"
    by simp
  then have u: "uint (of_nat (k mod 256) :: 8 word) = int (k mod 256)"
    by (simp add: uint_nat unat_of_nat)
  have "(int (k mod 256) + 1) mod AUX_MAG_SKIP cfg = int (k mod 256) + 1"
    using big by (intro mod_pos_pos_trivial) auto
  with u have "next_aux_mag_skip cfg (of_nat (k mod 256)) = of_nat (Suc (k mod 256))"
    by (simp add: next_aux_mag_skip_def add.commute)
  also have "(of_nat (Suc (k mod 256)) :: 8 word) = of_nat (Suc k mod 256)"
    unfolding word_of_nat_eq_iff take_bit_eq_mod by (simp add: mod_Suc_eq)
  finally show ?thesis
    using P by simp
qed

lemma task_run_aux_mag_skip:
  assumes "phase st = Running" "aux_mag_skip st = 0"
  shows "aux_mag_skip (task_run cfg ss feeds k st) = of_nat (k mod aux_mag_period cfg)"
proof (induction k)
  case 0
  show ?case using assms(2) by simp
next
  case (Suc k)
  show ?case
    using assms(1) Suc
    by (simp add: task_step_def task_run_phase cycle_aux_mag_skip next_aux_mag_skip_mod)
qed

lemma task_run_visits:
  assumes "phase st = Running" "aux_mag_skip st = 0" "distinct (map sensor_id ss)" "a \<in> set ss"
  shows "visits (sensor_id a) (trace (task_run cfg ss feeds k st)) =
           visits (sensor_id a) (trace st) +
           (if sensor_type a = PIOS_SENSORS_TYPE_3AXIS_AUXMAG
            then k div aux_mag_period cfg else k)"
proof (induction k)
  case 0
  show ?case by simp
next
  case (Suc k)
  let ?st = "task_run cfg ss feeds k st"
  have run: "phase ?st = Running"
    using assms(1) by (simp add: task_run_phase)
  have step: "task_run cfg ss feeds (Suc k) st = cycle cfg ss (feeds k) ?st"
    using run by (simp add: task_step_def)
  have "Suc k mod aux_mag_period cfg < 256"
    using aux_mag_period_bounds [of cfg] by (meson less_le_trans mod_less_divisor)
  then have zero: "(of_nat (Suc k mod aux_mag_period cfg) :: 8 word) = 0 \<longleftrightarrow>
      Suc k mod aux_mag_period cfg = 0"
    by (rule word8_of_nat_eq_0)
  have "served (next_aux_mag_skip cfg (aux_mag_skip ?st)) a \<longleftrightarrow>
      sensor_type a \<noteq> PIOS_SENSORS_TYPE_3AXIS_AUXMAG \<or> Suc k mod aux_mag_period cfg = 0"
    using zero
    by (simp add: served_def task_run_aux_mag_skip [OF assms(1,2)] next_aux_mag_skip_mod)
  with cycle_visits [OF run assms(3,4), of cfg "feeds k"] Suc step show ?case
    by (simp add: div_Suc)
qed

text \<open>
  C9. Let \<open>N = AUX_MAG_SKIP\<close>, which is the ceiling of
  \<open>max(rate, 76) / 75\<close> for a whole-numbered rate, and 7 at 500 Hz. For a rate of at
  most 19200 Hz (so that \<open>N \<le> 256\<close>), a running task that starts with the skip counter
  at zero and has distinct instances serves an aux-mag instance \<open>k div N\<close> times in its
  first \<open>k\<close> cycles, hence exactly once in every \<open>N\<close> consecutive cycles, and serves
  every other instance in every cycle.
\<close>

theorem aux_mag_decimation:
  assumes "phase st = Running" and "aux_mag_skip st = 0"
    and "distinct (map sensor_id ss)" and "a \<in> set ss" and "b \<in> set ss"
    and "sensor_type a = PIOS_SENSORS_TYPE_3AXIS_AUXMAG"
    and "sensor_type b \<noteq> PIOS_SENSORS_TYPE_3AXIS_AUXMAG"
    and "PIOS_SENSOR_RATE cfg \<le> 19200"
  shows "AUX_MAG_SKIP cfg = \<lceil>real (max (PIOS_SENSOR_RATE cfg) 76) / 75\<rceil> \<and>
         (PIOS_SENSOR_RATE cfg = 500 \<longrightarrow> AUX_MAG_SKIP cfg = 7) \<and>
         visits (sensor_id a) (trace (task_run cfg ss feeds k st)) =
           visits (sensor_id a) (trace st) + k div nat (AUX_MAG_SKIP cfg) \<and>
         visits (sensor_id a) (trace (task_run cfg ss feeds (k + nat (AUX_MAG_SKIP cfg)) st)) =
           visits (sensor_id a) (trace (task_run cfg ss feeds k st)) + 1 \<and>
         visits (sensor_id b) (trace (task_run cfg ss feeds (Suc k) st)) =
           visits (sensor_id b) (trace (task_run cfg ss feeds k st)) + 1"
proof -
  have "AUX_MAG_SKIP cfg \<le> 256"
    using assms(8) by (rule AUX_MAG_SKIP_le_256)
  then have P: "aux_mag_period cfg = nat (AUX_MAG_SKIP cfg)"
    by (simp add: aux_mag_period_def)
  have pos: "0 < nat (AUX_MAG_SKIP cfg)"
    using AUX_MAG_SKIP_ge_2 [of cfg] by simp
  have va: "visits (sensor_id a) (trace (task_run cfg ss feeds j st)) =
      visits (sensor_id a) (trace st) + j div nat (AUX_MAG_SKIP cfg)" for j
    using task_run_visits [OF assms(1-4), of cfg feeds j] assms(6) P by simp
  have vb: "visits (sensor_id b) (trace (task_run cfg ss feeds j st)) =
      visits (sensor_id b) (trace st) + j" for j
    using task_run_visits [OF assms(1-3,5), of cfg feeds j] assms(7) by simp
  have "(k + nat (AUX_MAG_SKIP cfg)) div nat (AUX_MAG_SKIP cfg) = k div nat (AUX_MAG_SKIP cfg) + 1"
    using pos by simp
  then have window: "visits (sensor_id a)
        (trace (task_run cfg ss feeds (k + nat (AUX_MAG_SKIP cfg)) st)) =
      visits (sensor_id a) (trace (task_run cfg ss feeds k st)) + 1"
    by (simp only: va)
  have "PIOS_SENSOR_RATE cfg = 500 \<longrightarrow> AUX_MAG_SKIP cfg = 7"
    by (simp add: AUX_MAG_SKIP_def)
  then show ?thesis
    using AUX_MAG_SKIP_ceiling [of cfg] va [of k] window vb [of k] vb [of "Suc k"]
    by simp
qed

lemma example_start:
  "phase (SensorsTask_start tests_pass [accel_sensor, auxmag_sensor] boot_globals) = Running"
  "aux_mag_skip (SensorsTask_start tests_pass [accel_sensor, auxmag_sensor] boot_globals) = 0"
  "visits sid (trace (SensorsTask_start tests_pass [accel_sensor, auxmag_sensor] boot_globals)) = 0"
  by (simp_all add: SensorsTask_start_def Let_def test_step_def tests_pass_def)

theorem aux_mag_decimation_witness:
  "AUX_MAG_SKIP cfg_500 = 7 \<and>
   visits 1 (trace (task_run cfg_500 [accel_sensor, auxmag_sensor] always_feed_one 20
      (SensorsTask_start tests_pass [accel_sensor, auxmag_sensor] boot_globals))) = 2 \<and>
   visits 1 (trace (task_run cfg_500 [accel_sensor, auxmag_sensor] always_feed_one (20 + 7)
      (SensorsTask_start tests_pass [accel_sensor, auxmag_sensor] boot_globals))) = 3 \<and>
   visits 0 (trace (task_run cfg_500 [accel_sensor, auxmag_sensor] always_feed_one (Suc 20)
      (SensorsTask_start tests_pass [accel_sensor, auxmag_sensor] boot_globals))) =
   visits 0 (trace (task_run cfg_500 [accel_sensor, auxmag_sensor] always_feed_one 20
      (SensorsTask_start tests_pass [accel_sensor, auxmag_sensor] boot_globals))) + 1"
proof -
  have skip: "AUX_MAG_SKIP cfg_500 = 7"
    by (simp add: AUX_MAG_SKIP_def cfg_500_def)
  have ids: "sensor_id auxmag_sensor = 1" "sensor_id accel_sensor = 0"
    "sensor_type auxmag_sensor = PIOS_SENSORS_TYPE_3AXIS_AUXMAG"
    "sensor_type accel_sensor \<noteq> PIOS_SENSORS_TYPE_3AXIS_AUXMAG"
    "PIOS_SENSOR_RATE cfg_500 \<le> 19200"
    by (simp_all add: auxmag_sensor_def accel_sensor_def cfg_500_def)
  from aux_mag_decimation [OF example_start(1,2), where ss = "[accel_sensor, auxmag_sensor]"
      and a = auxmag_sensor and b = accel_sensor and cfg = cfg_500
      and feeds = always_feed_one and k = 20]
  show ?thesis
    using ids skip by (simp add: example_start(3))
qed

end
